theory Spec2Isabelle
  imports Complex_Main "HOL-Library.Char_ord" "HOL-Library.List_Lexorder"
begin

section \<open>Intelligems analytics: the decision logic of the command-line tools\<close>

text \<open>
  The tools are Python scripts. Their decision logic works on numbers decoded from JSON
  (Python \<^verbatim>\<open>int\<close> and \<^verbatim>\<open>float\<close>) and on \<^verbatim>\<open>None\<close>.
  Conventions of this development:
  \<^item> a Python \<^verbatim>\<open>float\<close> is an exact \<^typ>\<open>real\<close>: thresholds are compared and products
    are formed without rounding, so every statement below is about the arithmetic the code
    writes down, not about IEEE rounding;
  \<^item> a Python \<^verbatim>\<open>int\<close> (runtime days, order and visitor counts) is an \<^typ>\<open>int\<close>;
  \<^item> an argument that is a number or \<^verbatim>\<open>None\<close> is a \<^typ>\<open>real option\<close>;
  \<^item> the verdict strings are the constructors of \<open>verdict\<close>.
\<close>

subsection \<open>ig_config.py\<close>

definition MIN_CONFIDENCE :: real where
  "MIN_CONFIDENCE = 0.80"

definition NEUTRAL_LIFT_THRESHOLD :: real where
  "NEUTRAL_LIFT_THRESHOLD = 0.02"

definition MIN_VISITORS :: int where
  "MIN_VISITORS = 100"

definition VERDICT_MIN_RUNTIME :: int where
  "VERDICT_MIN_RUNTIME = 10"

definition VERDICT_MIN_ORDERS :: int where
  "VERDICT_MIN_ORDERS = 30"

subsection \<open>Verdicts\<close>

text \<open>
  The strings the tools return:
  \<^verbatim>\<open>"WINNER"\<close>, \<^verbatim>\<open>"LOSER"\<close>, \<^verbatim>\<open>"FLAT"\<close>, \<^verbatim>\<open>"KEEP RUNNING"\<close>,
  \<^verbatim>\<open>"TOO EARLY"\<close> and, for segments, \<^verbatim>\<open>"LOW DATA"\<close>.
\<close>

datatype verdict = WINNER | LOSER | FLAT | KEEP_RUNNING | TOO_EARLY | LOW_DATA

subsection \<open>Exceptions and true division\<close>

text \<open>
  The exceptions the modelled code can raise. A function that can raise returns a sum,
  with the exception on the left.
\<close>

datatype py_error = TypeError | IndexError | AttributeError | ZeroDivisionError | OverflowError

text \<open>
  \<^verbatim>\<open>a / b\<close> on two Python integers. It raises \<^verbatim>\<open>ZeroDivisionError\<close> for a zero
  divisor, and \<^verbatim>\<open>OverflowError\<close> when the quotient is too large for a float: the
  quotient is rounded to the nearest double, and from \<open>2 ^ 1024 - 2 ^ 970\<close> on (half a step
  above the largest double) there is none. Within the range the quotient is taken exactly.
\<close>

definition float_overflow :: real where
  "float_overflow = 2 ^ 1024 - 2 ^ 970"

definition py_truediv :: "int \<Rightarrow> int \<Rightarrow> py_error + real" where
  "py_truediv a b =
     (if b = 0 then Inl ZeroDivisionError
      else if \<bar>real_of_int a / real_of_int b\<bar> \<ge> float_overflow then Inl OverflowError
      else Inr (real_of_int a / real_of_int b))"

subsection \<open>rollout.py and debrief.py: compute_verdict\<close>

text \<open>\<^verbatim>\<open>compute_verdict(p2bb, uplift, days, total_orders)\<close> of rollout.py.\<close>

definition rollout_compute_verdict :: "real option \<Rightarrow> real option \<Rightarrow> int \<Rightarrow> int \<Rightarrow> verdict" where
  "rollout_compute_verdict p2bb uplift days total_orders =
     (if days < VERDICT_MIN_RUNTIME \<or> total_orders < VERDICT_MIN_ORDERS then TOO_EARLY
      else case (p2bb, uplift) of
          (None, _) \<Rightarrow> TOO_EARLY
        | (_, None) \<Rightarrow> TOO_EARLY
        | (Some p, Some u) \<Rightarrow>
            if p \<ge> MIN_CONFIDENCE \<and> u > NEUTRAL_LIFT_THRESHOLD then WINNER
            else if (1 - p) \<ge> MIN_CONFIDENCE \<and> u < - NEUTRAL_LIFT_THRESHOLD then LOSER
            else if days \<ge> 21 \<and> \<bar>u\<bar> \<le> NEUTRAL_LIFT_THRESHOLD then FLAT
            else KEEP_RUNNING)"

text \<open>\<^verbatim>\<open>compute_verdict(p2bb, uplift, days, total_orders)\<close> of debrief.py.\<close>

definition debrief_compute_verdict :: "real option \<Rightarrow> real option \<Rightarrow> int \<Rightarrow> int \<Rightarrow> verdict" where
  "debrief_compute_verdict p2bb uplift days total_orders =
     (if days < VERDICT_MIN_RUNTIME \<or> total_orders < VERDICT_MIN_ORDERS then TOO_EARLY
      else case (p2bb, uplift) of
          (None, _) \<Rightarrow> TOO_EARLY
        | (_, None) \<Rightarrow> TOO_EARLY
        | (Some p, Some u) \<Rightarrow>
            if p \<ge> MIN_CONFIDENCE \<and> u > NEUTRAL_LIFT_THRESHOLD then WINNER
            else if (1 - p) \<ge> MIN_CONFIDENCE \<and> u < - NEUTRAL_LIFT_THRESHOLD then LOSER
            else if days \<ge> 21 \<and> \<bar>u\<bar> \<le> NEUTRAL_LIFT_THRESHOLD then FLAT
            else KEEP_RUNNING)"

text \<open>
  The reference classifier, written from the specification's pseudocode (section 4.3), with
  the thresholds as parameters. Each line of the pseudocode is one test below, in its order.
\<close>

definition classify_spec ::
  "real option \<Rightarrow> real option \<Rightarrow> int \<Rightarrow> int \<Rightarrow> int \<Rightarrow> int \<Rightarrow> real \<Rightarrow> real \<Rightarrow> verdict" where
  "classify_spec p2bb uplift runtimeDays totalOrders minRuntime minOrders minConfidence neutralThreshold =
     (if runtimeDays < minRuntime \<or> totalOrders < minOrders then TOO_EARLY
      else if p2bb = None \<or> uplift = None then TOO_EARLY
      else if the p2bb \<ge> minConfidence \<and> the uplift > neutralThreshold then WINNER
      else if (1 - the p2bb) \<ge> minConfidence \<and> the uplift < - neutralThreshold then LOSER
      else if runtimeDays \<ge> 21 \<and> \<bar>the uplift\<bar> \<le> neutralThreshold then FLAT
      else KEEP_RUNNING)"

subsection \<open>verdict.py: variation_verdict, the maturity check and the segment quick-check\<close>

text \<open>\<^verbatim>\<open>variation_verdict(p2bb, uplift, days)\<close>.\<close>

definition variation_verdict :: "real option \<Rightarrow> real option \<Rightarrow> int \<Rightarrow> verdict" where
  "variation_verdict p2bb uplift days =
     (case (p2bb, uplift) of
          (None, _) \<Rightarrow> TOO_EARLY
        | (_, None) \<Rightarrow> TOO_EARLY
        | (Some p, Some u) \<Rightarrow>
            if p \<ge> MIN_CONFIDENCE \<and> u > NEUTRAL_LIFT_THRESHOLD then WINNER
            else if (1 - p) \<ge> MIN_CONFIDENCE \<and> u < - NEUTRAL_LIFT_THRESHOLD then LOSER
            else if days \<ge> 21 \<and> \<bar>u\<bar> \<le> NEUTRAL_LIFT_THRESHOLD then FLAT
            else KEEP_RUNNING)"

text \<open>
  The maturity check of \<^verbatim>\<open>main\<close>: one entry of \<^verbatim>\<open>maturity_issues\<close> for each
  failed gate, in the order the code appends them (the entries are formatted messages in the
  source).
\<close>

datatype maturity_issue = Runtime_Issue | Orders_Issue | Visitors_Issue

definition maturity_issues :: "int \<Rightarrow> int \<Rightarrow> int \<Rightarrow> maturity_issue list" where
  "maturity_issues days total_orders total_visitors =
     (if days < VERDICT_MIN_RUNTIME then [Runtime_Issue] else []) @
     (if total_orders < VERDICT_MIN_ORDERS then [Orders_Issue] else []) @
     (if total_visitors < MIN_VISITORS then [Visitors_Issue] else [])"

definition is_too_early :: "int \<Rightarrow> int \<Rightarrow> int \<Rightarrow> bool" where
  "is_too_early days total_orders total_visitors =
     (length (maturity_issues days total_orders total_visitors) > 0)"

text \<open>The verdict of one variation in \<^verbatim>\<open>main\<close> (\<^verbatim>\<open>v_verdict\<close>).\<close>

definition v_verdict :: "real option \<Rightarrow> real option \<Rightarrow> int \<Rightarrow> int \<Rightarrow> int \<Rightarrow> verdict" where
  "v_verdict p2bb uplift days total_orders total_visitors =
     (if is_too_early days total_orders total_visitors then TOO_EARLY
      else variation_verdict p2bb uplift days)"

text \<open>The verdict of one segment in the segment quick-check of \<^verbatim>\<open>main\<close> (\<^verbatim>\<open>seg_verdict\<close>).\<close>

definition seg_verdict :: "real option \<Rightarrow> real option \<Rightarrow> int \<Rightarrow> verdict" where
  "seg_verdict seg_p2bb seg_uplift days =
     (if seg_uplift \<noteq> None then variation_verdict seg_p2bb seg_uplift days
      else LOW_DATA)"

subsection \<open>spotlight.py and rollout.py: segment_verdict and the contradiction flag\<close>

text \<open>\<^verbatim>\<open>segment_verdict(p2bb, uplift, days)\<close> of spotlight.py.\<close>

definition spotlight_segment_verdict :: "real option \<Rightarrow> real option \<Rightarrow> int \<Rightarrow> verdict" where
  "spotlight_segment_verdict p2bb uplift days =
     (case (p2bb, uplift) of
          (None, _) \<Rightarrow> LOW_DATA
        | (_, None) \<Rightarrow> LOW_DATA
        | (Some p, Some u) \<Rightarrow>
            if p \<ge> MIN_CONFIDENCE \<and> u > NEUTRAL_LIFT_THRESHOLD then WINNER
            else if (1 - p) \<ge> MIN_CONFIDENCE \<and> u < - NEUTRAL_LIFT_THRESHOLD then LOSER
            else if days \<ge> 21 \<and> \<bar>u\<bar> \<le> NEUTRAL_LIFT_THRESHOLD then FLAT
            else KEEP_RUNNING)"

text \<open>\<^verbatim>\<open>segment_verdict(p2bb, uplift, days)\<close> of rollout.py.\<close>

definition rollout_segment_verdict :: "real option \<Rightarrow> real option \<Rightarrow> int \<Rightarrow> verdict" where
  "rollout_segment_verdict p2bb uplift days =
     (case (p2bb, uplift) of
          (None, _) \<Rightarrow> LOW_DATA
        | (_, None) \<Rightarrow> LOW_DATA
        | (Some p, Some u) \<Rightarrow>
            if p \<ge> MIN_CONFIDENCE \<and> u > NEUTRAL_LIFT_THRESHOLD then WINNER
            else if (1 - p) \<ge> MIN_CONFIDENCE \<and> u < - NEUTRAL_LIFT_THRESHOLD then LOSER
            else if days \<ge> 21 \<and> \<bar>u\<bar> \<le> NEUTRAL_LIFT_THRESHOLD then FLAT
            else KEEP_RUNNING)"

text \<open>
  The contradiction check of spotlight.py's \<^verbatim>\<open>main\<close>: the value of
  \<^verbatim>\<open>contradiction\<close> after the nested \<^verbatim>\<open>if\<close>, from \<^verbatim>\<open>overall_uplift\<close> and
  \<^verbatim>\<open>seg_uplift\<close>.
\<close>

definition spotlight_contradiction :: "real option \<Rightarrow> real option \<Rightarrow> bool" where
  "spotlight_contradiction overall_uplift seg_uplift =
     (case (overall_uplift, seg_uplift) of
          (Some ou, Some su) \<Rightarrow>
            if ou > NEUTRAL_LIFT_THRESHOLD \<and> su < - NEUTRAL_LIFT_THRESHOLD then True
            else if ou < - NEUTRAL_LIFT_THRESHOLD \<and> su > NEUTRAL_LIFT_THRESHOLD then True
            else False
        | _ \<Rightarrow> False)"

text \<open>The same check in rollout.py's \<^verbatim>\<open>main\<close>, from \<^verbatim>\<open>uplift\<close> and \<^verbatim>\<open>seg_uplift\<close>.\<close>

definition rollout_contradiction :: "real option \<Rightarrow> real option \<Rightarrow> bool" where
  "rollout_contradiction uplift seg_uplift =
     (case (uplift, seg_uplift) of
          (Some u, Some su) \<Rightarrow>
            if u > NEUTRAL_LIFT_THRESHOLD \<and> su < - NEUTRAL_LIFT_THRESHOLD then True
            else if u < - NEUTRAL_LIFT_THRESHOLD \<and> su > NEUTRAL_LIFT_THRESHOLD then True
            else False
        | _ \<Rightarrow> False)"

subsection \<open>spotlight.py: compute_revenue_opportunity\<close>

text \<open>
  \<^verbatim>\<open>compute_revenue_opportunity(seg_visitors, uplift, control_rpv, days)\<close>. The visitor
  count and the days are integers, and \<^verbatim>\<open>seg_visitors / days\<close> is their true division,
  the one step of the function that can raise.
\<close>

definition compute_revenue_opportunity ::
  "int \<Rightarrow> real option \<Rightarrow> real option \<Rightarrow> int \<Rightarrow> py_error + real" where
  "compute_revenue_opportunity seg_visitors uplift control_rpv days =
     (case (uplift, control_rpv) of
          (Some u, Some rpv) \<Rightarrow>
            if days \<le> 0 \<or> seg_visitors \<le> 0 then Inr 0
            else
              (case py_truediv seg_visitors days of
                 Inl e \<Rightarrow> Inl e
               | Inr seg_daily \<Rightarrow>
                   let rpv_delta = rpv * u
                   in Inr (seg_daily * rpv_delta * 365))
        | _ \<Rightarrow> Inr 0)"

subsection \<open>spotlight.py: rollout_recommendation\<close>

text \<open>
  One entry of \<^verbatim>\<open>all_segments\<close>, with the keys \<^verbatim>\<open>main\<close> gives it:
  \<^verbatim>\<open>name\<close>, \<^verbatim>\<open>type\<close>, \<^verbatim>\<open>verdict\<close>, \<^verbatim>\<open>uplift\<close>, \<^verbatim>\<open>confidence\<close>,
  \<^verbatim>\<open>visitors\<close>, \<^verbatim>\<open>revenue_opportunity\<close>, \<^verbatim>\<open>contradiction\<close>
  (the fields carry the prefix \<open>seg_\<close>, and the suffix \<open>_of\<close> where the
  name is a variable of \<^verbatim>\<open>main\<close>).
\<close>

record segment_result =
  seg_name :: string
  seg_type :: string
  seg_verdict_of :: verdict
  seg_uplift_of :: "real option"
  seg_confidence_of :: "real option"
  seg_visitors_of :: int
  seg_revenue_opportunity :: real
  seg_contradiction :: bool

text \<open>
  The first component of the result: \<^verbatim>\<open>"HOLD"\<close>, \<^verbatim>\<open>"ROLL OUT"\<close>,
  \<^verbatim>\<open>"SEGMENT-SPECIFIC"\<close>, \<^verbatim>\<open>"DON'T ROLL OUT"\<close>.
\<close>

datatype action = HOLD | ROLL_OUT | SEGMENT_SPECIFIC | DONT_ROLL_OUT

text \<open>
  The second component, one constructor for each message of the source:
  \<^item> \<open>No_Segment_Data\<close>: "No segment data available for analysis."
  \<^item> \<open>No_Losing_Segments\<close>: "No losing segments. Roll out to all traffic."
  \<^item> \<open>Roll_Out_Only w l v\<close>: "Consider rolling out to w only. l v underperforming
    (dash) exclude or investigate.", the three arguments of \<^verbatim>\<open>format\<close>
  \<^item> \<open>No_Winning_Segments\<close>: "No winning segments found. The variant is hurting performance."
  \<^item> \<open>Insufficient_Data\<close>: "Most segments have insufficient data. Let the test run longer."
  \<^item> \<open>Mixed_Signals\<close>: "Mixed signals. Monitor for another few days before making a call."
\<close>

datatype reason =
    No_Segment_Data
  | No_Losing_Segments
  | Roll_Out_Only string string string
  | No_Winning_Segments
  | Insufficient_Data
  | Mixed_Signals

text \<open>\<^verbatim>\<open>sep.join(xs)\<close>.\<close>

fun join :: "string \<Rightarrow> string list \<Rightarrow> string" where
  "join sep [] = []"
| "join sep [x] = x"
| "join sep (x # y # ys) = x @ sep @ join sep (y # ys)"

text \<open>The three list comprehensions at the head of \<^verbatim>\<open>rollout_recommendation\<close>.\<close>

definition winners_of :: "segment_result list \<Rightarrow> segment_result list" where
  "winners_of segments = filter (\<lambda>s. seg_verdict_of s = WINNER) segments"

definition losers_of :: "segment_result list \<Rightarrow> segment_result list" where
  "losers_of segments = filter (\<lambda>s. seg_verdict_of s = LOSER) segments"

definition low_data_of :: "segment_result list \<Rightarrow> segment_result list" where
  "low_data_of segments = filter (\<lambda>s. seg_verdict_of s = LOW_DATA) segments"

definition rollout_recommendation :: "segment_result list \<Rightarrow> action \<times> reason" where
  "rollout_recommendation segments =
     (let winners = winners_of segments;
          losers = losers_of segments;
          low_data = low_data_of segments;
          total = length segments
      in
        if total = 0 then (HOLD, No_Segment_Data)
        else if length losers = 0 \<and> real (length winners) \<ge> real total * 0.5
          then (ROLL_OUT, No_Losing_Segments)
        else if length losers > 0 \<and> length winners > 0 then
          (let winner_names = join '', '' (map seg_name (take 3 winners));
               loser_names = join '', '' (map seg_name (take 3 losers))
           in (SEGMENT_SPECIFIC,
               Roll_Out_Only winner_names loser_names
                 (if length losers = 1 then ''is'' else ''are'')))
        else if length losers > 0 \<and> length winners = 0
          then (DONT_ROLL_OUT, No_Winning_Segments)
        else if real (length low_data) > real total * 0.5
          then (HOLD, Insufficient_Data)
        else (HOLD, Mixed_Signals))"

subsection \<open>funnel.py: find_breakpoint\<close>

text \<open>
  One entry of the list \<^verbatim>\<open>analyze_funnel\<close> returns, with its keys \<^verbatim>\<open>metric\<close>,
  \<^verbatim>\<open>label\<close>, \<^verbatim>\<open>control\<close>, \<^verbatim>\<open>variant\<close>, \<^verbatim>\<open>uplift\<close>, \<^verbatim>\<open>confidence\<close>,
  \<^verbatim>\<open>has_data\<close> (the fields carry the prefix \<open>st_\<close>).
\<close>

record stage =
  st_metric :: string
  st_label :: string
  st_control :: "real option"
  st_variant :: "real option"
  st_uplift :: "real option"
  st_confidence :: "real option"
  st_has_data :: bool

text \<open>The strings \<^verbatim>\<open>"up"\<close>, \<^verbatim>\<open>"down"\<close>, \<^verbatim>\<open>"flat"\<close>.\<close>

datatype direction = Up | Down | Flat

text \<open>The conditional expression that \<^verbatim>\<open>find_breakpoint\<close> assigns to \<^verbatim>\<open>direction\<close>.\<close>

definition direction_of :: "real \<Rightarrow> direction" where
  "direction_of u = (if u > 0.005 then Up else (if u < - 0.005 then Down else Flat))"

text \<open>
  The loop of \<^verbatim>\<open>find_breakpoint\<close>: \<open>prev_direction\<close> is the loop's variable,
  \<open>None\<close> as in the source.
\<close>

fun find_breakpoint_loop :: "direction option \<Rightarrow> stage list \<Rightarrow> stage option" where
  "find_breakpoint_loop prev_direction [] = None"
| "find_breakpoint_loop prev_direction (s # ss) =
     (case st_uplift s of
        None \<Rightarrow> find_breakpoint_loop prev_direction ss
      | Some u \<Rightarrow>
          let direction = direction_of u in
          if prev_direction \<noteq> None \<and> Some direction \<noteq> prev_direction
             \<and> direction \<noteq> Flat \<and> prev_direction \<noteq> Some Flat
          then Some s
          else if direction \<noteq> Flat then find_breakpoint_loop (Some direction) ss
          else find_breakpoint_loop prev_direction ss)"

definition find_breakpoint :: "stage list \<Rightarrow> stage option" where
  "find_breakpoint stages = find_breakpoint_loop None stages"

text \<open>
  The specification's reading of the scan. A stage is \<open>moving\<close> when its uplift is present
  and not flat; \<open>first_flip\<close> returns the first element of a list that differs in direction
  from the element before it.
\<close>

definition stage_direction :: "stage \<Rightarrow> direction option" where
  "stage_direction s = map_option direction_of (st_uplift s)"

definition moving :: "stage \<Rightarrow> bool" where
  "moving s = (stage_direction s = Some Up \<or> stage_direction s = Some Down)"

fun first_flip :: "stage list \<Rightarrow> stage option" where
  "first_flip [] = None"
| "first_flip [s] = None"
| "first_flip (s # t # ts) =
     (if stage_direction t \<noteq> stage_direction s then Some t else first_flip (t # ts))"

subsection \<open>The metrics feed\<close>

text \<open>
  The feed is the decoded JSON list \<^verbatim>\<open>analytics["metrics"]\<close>: a list of dictionaries
  (\<^verbatim>\<open>List[Dict]\<close> in the accessors' signatures). A metric record holds objects, numbers,
  strings and \<^verbatim>\<open>null\<close>; JSON \<^verbatim>\<open>null\<close> and a missing result are both Python's
  \<^verbatim>\<open>None\<close>, which is \<open>JNull\<close>. A dictionary is an association list read with
  \<open>map_of\<close>.
\<close>

datatype json = JNull | JNum real | JStr string | JObj "(string \<times> json) list"

type_synonym py_dict = "(string \<times> json) list"

text \<open>\<^verbatim>\<open>d.get(k)\<close> and \<^verbatim>\<open>d.get(k, default)\<close>.\<close>

definition dict_get :: "py_dict \<Rightarrow> string \<Rightarrow> json" where
  "dict_get d k = (case map_of d k of None \<Rightarrow> JNull | Some v \<Rightarrow> v)"

definition dict_get_default :: "py_dict \<Rightarrow> string \<Rightarrow> json \<Rightarrow> json" where
  "dict_get_default d k dflt = (case map_of d k of None \<Rightarrow> dflt | Some v \<Rightarrow> v)"

subsection \<open>ig_metrics.py: the accessors\<close>

text \<open>
  Each accessor is a \<^verbatim>\<open>for\<close> loop over the feed with a \<^verbatim>\<open>return\<close> inside two or
  three tests; a record that fails a test is passed over and the loop goes on.
  \<^verbatim>\<open>isinstance(x, dict)\<close> is the match on \<open>JObj\<close>.
\<close>

fun get_metric_value :: "py_dict list \<Rightarrow> string \<Rightarrow> string \<Rightarrow> json" where
  "get_metric_value [] metric_name variation_id = JNull"
| "get_metric_value (m # ms) metric_name variation_id =
     (if dict_get m ''variation_id'' = JStr variation_id then
        (case dict_get_default m metric_name (JObj []) of
           JObj data \<Rightarrow> dict_get data ''value''
         | _ \<Rightarrow> get_metric_value ms metric_name variation_id)
      else get_metric_value ms metric_name variation_id)"

fun get_metric_uplift :: "py_dict list \<Rightarrow> string \<Rightarrow> string \<Rightarrow> json" where
  "get_metric_uplift [] metric_name variation_id = JNull"
| "get_metric_uplift (m # ms) metric_name variation_id =
     (if dict_get m ''variation_id'' = JStr variation_id then
        (case dict_get_default m metric_name (JObj []) of
           JObj data \<Rightarrow>
             (case dict_get_default data ''uplift'' (JObj []) of
                JObj uplift \<Rightarrow> dict_get uplift ''value''
              | _ \<Rightarrow> get_metric_uplift ms metric_name variation_id)
         | _ \<Rightarrow> get_metric_uplift ms metric_name variation_id)
      else get_metric_uplift ms metric_name variation_id)"

fun get_metric_confidence :: "py_dict list \<Rightarrow> string \<Rightarrow> string \<Rightarrow> json" where
  "get_metric_confidence [] metric_name variation_id = JNull"
| "get_metric_confidence (m # ms) metric_name variation_id =
     (if dict_get m ''variation_id'' = JStr variation_id then
        (case dict_get_default m metric_name (JObj []) of
           JObj data \<Rightarrow> dict_get data ''p2bb''
         | _ \<Rightarrow> get_metric_confidence ms metric_name variation_id)
      else get_metric_confidence ms metric_name variation_id)"

fun get_metric_ci :: "py_dict list \<Rightarrow> string \<Rightarrow> string \<Rightarrow> json \<times> json" where
  "get_metric_ci [] metric_name variation_id = (JNull, JNull)"
| "get_metric_ci (m # ms) metric_name variation_id =
     (if dict_get m ''variation_id'' = JStr variation_id then
        (case dict_get_default m metric_name (JObj []) of
           JObj data \<Rightarrow>
             (case dict_get_default data ''uplift'' (JObj []) of
                JObj uplift \<Rightarrow> (dict_get uplift ''ci_low'', dict_get uplift ''ci_high'')
              | _ \<Rightarrow> get_metric_ci ms metric_name variation_id)
         | _ \<Rightarrow> get_metric_ci ms metric_name variation_id)
      else get_metric_ci ms metric_name variation_id)"

subsection \<open>ig_metrics.py: the accessors on any decoded list\<close>

text \<open>
  The same four functions on a list of arbitrary decoded values, with the one step of theirs
  that can raise: \<^verbatim>\<open>x.get(k)\<close> raises \<^verbatim>\<open>AttributeError\<close> unless \<open>x\<close> is a
  dictionary. The tests \<^verbatim>\<open>isinstance(data, dict)\<close> and
  \<^verbatim>\<open>isinstance(uplift, dict)\<close> stand before the calls \<^verbatim>\<open>data.get\<close> and
  \<^verbatim>\<open>uplift.get\<close>.
\<close>

definition py_get :: "json \<Rightarrow> string \<Rightarrow> py_error + json" where
  "py_get x k = (case x of JObj d \<Rightarrow> Inr (dict_get d k) | _ \<Rightarrow> Inl AttributeError)"

definition py_get_default :: "json \<Rightarrow> string \<Rightarrow> json \<Rightarrow> py_error + json" where
  "py_get_default x k dflt =
     (case x of JObj d \<Rightarrow> Inr (dict_get_default d k dflt) | _ \<Rightarrow> Inl AttributeError)"

definition is_dict :: "json \<Rightarrow> bool" where
  "is_dict x = (case x of JObj _ \<Rightarrow> True | _ \<Rightarrow> False)"

fun py_get_metric_value :: "json list \<Rightarrow> string \<Rightarrow> string \<Rightarrow> py_error + json" where
  "py_get_metric_value [] metric_name variation_id = Inr JNull"
| "py_get_metric_value (m # ms) metric_name variation_id =
     (case py_get m ''variation_id'' of
        Inl e \<Rightarrow> Inl e
      | Inr i \<Rightarrow>
          if i = JStr variation_id then
            (case py_get_default m metric_name (JObj []) of
               Inl e \<Rightarrow> Inl e
             | Inr data \<Rightarrow>
                 if is_dict data then py_get data ''value''
                 else py_get_metric_value ms metric_name variation_id)
          else py_get_metric_value ms metric_name variation_id)"

fun py_get_metric_uplift :: "json list \<Rightarrow> string \<Rightarrow> string \<Rightarrow> py_error + json" where
  "py_get_metric_uplift [] metric_name variation_id = Inr JNull"
| "py_get_metric_uplift (m # ms) metric_name variation_id =
     (case py_get m ''variation_id'' of
        Inl e \<Rightarrow> Inl e
      | Inr i \<Rightarrow>
          if i = JStr variation_id then
            (case py_get_default m metric_name (JObj []) of
               Inl e \<Rightarrow> Inl e
             | Inr data \<Rightarrow>
                 if is_dict data then
                   (case py_get_default data ''uplift'' (JObj []) of
                      Inl e \<Rightarrow> Inl e
                    | Inr uplift \<Rightarrow>
                        if is_dict uplift then py_get uplift ''value''
                        else py_get_metric_uplift ms metric_name variation_id)
                 else py_get_metric_uplift ms metric_name variation_id)
          else py_get_metric_uplift ms metric_name variation_id)"

fun py_get_metric_confidence :: "json list \<Rightarrow> string \<Rightarrow> string \<Rightarrow> py_error + json" where
  "py_get_metric_confidence [] metric_name variation_id = Inr JNull"
| "py_get_metric_confidence (m # ms) metric_name variation_id =
     (case py_get m ''variation_id'' of
        Inl e \<Rightarrow> Inl e
      | Inr i \<Rightarrow>
          if i = JStr variation_id then
            (case py_get_default m metric_name (JObj []) of
               Inl e \<Rightarrow> Inl e
             | Inr data \<Rightarrow>
                 if is_dict data then py_get data ''p2bb''
                 else py_get_metric_confidence ms metric_name variation_id)
          else py_get_metric_confidence ms metric_name variation_id)"

fun py_get_metric_ci :: "json list \<Rightarrow> string \<Rightarrow> string \<Rightarrow> py_error + json \<times> json" where
  "py_get_metric_ci [] metric_name variation_id = Inr (JNull, JNull)"
| "py_get_metric_ci (m # ms) metric_name variation_id =
     (case py_get m ''variation_id'' of
        Inl e \<Rightarrow> Inl e
      | Inr i \<Rightarrow>
          if i = JStr variation_id then
            (case py_get_default m metric_name (JObj []) of
               Inl e \<Rightarrow> Inl e
             | Inr data \<Rightarrow>
                 if is_dict data then
                   (case py_get_default data ''uplift'' (JObj []) of
                      Inl e \<Rightarrow> Inl e
                    | Inr uplift \<Rightarrow>
                        if is_dict uplift then
                          (case py_get uplift ''ci_low'' of
                             Inl e \<Rightarrow> Inl e
                           | Inr lo \<Rightarrow>
                               (case py_get uplift ''ci_high'' of
                                  Inl e \<Rightarrow> Inl e
                                | Inr hi \<Rightarrow> Inr (lo, hi)))
                        else py_get_metric_ci ms metric_name variation_id)
                 else py_get_metric_ci ms metric_name variation_id)
          else py_get_metric_ci ms metric_name variation_id)"

subsection \<open>funnel.py: pick_best_variant and the fallback of main\<close>

text \<open>
  An entry of \<^verbatim>\<open>experiment["variations"]\<close>, with the keys \<^verbatim>\<open>id\<close>, \<^verbatim>\<open>name\<close>
  and \<^verbatim>\<open>isControl\<close>.
\<close>

record variation =
  var_id :: string
  var_name :: string
  var_isControl :: bool

text \<open>
  \<^verbatim>\<open>a > b\<close> on decoded values: numbers compare as numbers, strings lexicographically by
  code point; \<^verbatim>\<open>None\<close> and dictionaries are unordered, and so are a number and a
  string, where Python raises \<^verbatim>\<open>TypeError\<close>.
\<close>

fun py_gt :: "json \<Rightarrow> json \<Rightarrow> py_error + bool" where
  "py_gt (JNum a) (JNum b) = Inr (a > b)"
| "py_gt (JStr a) (JStr b) = Inr (a > b)"
| "py_gt _ _ = Inl TypeError"

text \<open>
  The loop of \<^verbatim>\<open>pick_best_variant\<close>, with its two variables \<^verbatim>\<open>best\<close> and
  \<^verbatim>\<open>best_uplift\<close>; \<^verbatim>\<open>best_uplift\<close> is \<^verbatim>\<open>None\<close> until the first assignment.
  The test is \<^verbatim>\<open>uplift is not None and (best_uplift is None or uplift > best_uplift)\<close>,
  evaluated left to right.
\<close>

fun pick_best_variant_loop ::
  "variation list \<Rightarrow> py_dict list \<Rightarrow> string \<Rightarrow> variation option \<Rightarrow> json
   \<Rightarrow> py_error + variation option" where
  "pick_best_variant_loop [] metrics metric_name best best_uplift = Inr best"
| "pick_best_variant_loop (v # vs) metrics metric_name best best_uplift =
     (let uplift = get_metric_uplift metrics metric_name (var_id v) in
      if uplift = JNull then pick_best_variant_loop vs metrics metric_name best best_uplift
      else if best_uplift = JNull then pick_best_variant_loop vs metrics metric_name (Some v) uplift
      else
        (case py_gt uplift best_uplift of
           Inl e \<Rightarrow> Inl e
         | Inr b \<Rightarrow>
             if b then pick_best_variant_loop vs metrics metric_name (Some v) uplift
             else pick_best_variant_loop vs metrics metric_name best best_uplift))"

definition pick_best_variant ::
  "variation list \<Rightarrow> py_dict list \<Rightarrow> string \<Rightarrow> py_error + variation option" where
  "pick_best_variant variants metrics metric_name =
     pick_best_variant_loop variants metrics metric_name None JNull"

text \<open>
  The value of \<^verbatim>\<open>best\<close> in \<^verbatim>\<open>main\<close> after
  \<^verbatim>\<open>best = pick_best_variant(variant_list, metrics, rev_metric)\<close> and
  \<^verbatim>\<open>if not best: best = variant_list[0]\<close>. A variation is a dictionary with a key
  \<^verbatim>\<open>id\<close>, so \<^verbatim>\<open>not best\<close> holds for \<^verbatim>\<open>None\<close> only.
\<close>

definition main_best ::
  "variation list \<Rightarrow> py_dict list \<Rightarrow> string \<Rightarrow> py_error + variation" where
  "main_best variant_list metrics rev_metric =
     (case pick_best_variant variant_list metrics rev_metric of
        Inl e \<Rightarrow> Inl e
      | Inr (Some best) \<Rightarrow> Inr best
      | Inr None \<Rightarrow>
          (case variant_list of [] \<Rightarrow> Inl IndexError | v # _ \<Rightarrow> Inr v))"

subsection \<open>ig_helpers.py: daily_visitors\<close>

definition daily_visitors :: "int \<Rightarrow> int \<Rightarrow> real" where
  "daily_visitors total_visitors runtime =
     (if runtime \<le> 0 then 0 else real_of_int total_visitors / real_of_int runtime)"

subsection \<open>impact.py: the core calculations and the opportunity cost of main\<close>

text \<open>
  The values \<^verbatim>\<open>main\<close> computes, under the names of its variables (with the prefix
  \<open>imp_\<close>).
\<close>

record impact =
  imp_annual_baseline :: real
  imp_expected_annual :: real
  imp_conservative_annual :: "real option"
  imp_optimistic_annual :: "real option"
  imp_expected_monthly :: real
  imp_conservative_monthly :: "real option"
  imp_optimistic_monthly :: "real option"
  imp_daily_impact :: real
  imp_weekly_impact :: real
  imp_monthly_impact_cost :: real

text \<open>
  From \<^verbatim>\<open>avg_daily_visitors\<close> to \<^verbatim>\<open>monthly_impact_cost\<close>. \<^verbatim>\<open>main\<close> exits
  before the calculations when \<^verbatim>\<open>control_value\<close> or \<^verbatim>\<open>uplift\<close> is \<^verbatim>\<open>None\<close>:
  the result is \<open>None\<close> then.
\<close>

definition impact_calculations ::
  "int \<Rightarrow> int \<Rightarrow> real option \<Rightarrow> real option \<Rightarrow> real option \<Rightarrow> real option \<Rightarrow> impact option" where
  "impact_calculations total_visitors runtime control_value uplift ci_low ci_high =
     (let avg_daily_visitors = (if runtime > 0 then daily_visitors total_visitors runtime else 0)
      in case (control_value, uplift) of
           (Some c, Some u) \<Rightarrow>
             (let annual_visitors = avg_daily_visitors * 365;
                  annual_baseline = annual_visitors * c;
                  expected_annual = annual_baseline * u;
                  conservative_annual =
                    (case ci_low of
                       Some l \<Rightarrow> Some (if l > 0 then annual_baseline * l else 0)
                     | None \<Rightarrow> None);
                  optimistic_annual =
                    (case ci_high of
                       Some h \<Rightarrow> Some (annual_baseline * h)
                     | None \<Rightarrow> None);
                  expected_monthly = expected_annual / 12;
                  conservative_monthly =
                    (case conservative_annual of Some x \<Rightarrow> Some (x / 12) | None \<Rightarrow> None);
                  optimistic_monthly =
                    (case optimistic_annual of Some x \<Rightarrow> Some (x / 12) | None \<Rightarrow> None);
                  daily_impact = (if expected_annual \<noteq> 0 then expected_annual / 365 else 0);
                  weekly_impact = daily_impact * 7;
                  monthly_impact_cost = daily_impact * 30
              in Some \<lparr>imp_annual_baseline = annual_baseline,
                       imp_expected_annual = expected_annual,
                       imp_conservative_annual = conservative_annual,
                       imp_optimistic_annual = optimistic_annual,
                       imp_expected_monthly = expected_monthly,
                       imp_conservative_monthly = conservative_monthly,
                       imp_optimistic_monthly = optimistic_monthly,
                       imp_daily_impact = daily_impact,
                       imp_weekly_impact = weekly_impact,
                       imp_monthly_impact_cost = monthly_impact_cost\<rparr>)
         | _ \<Rightarrow> None)"

subsection \<open>Typing of the feed, and test data\<close>

text \<open>
  The data model gives a metric's uplift the type float or absent: the value the accessor
  returns is a number or \<^verbatim>\<open>None\<close>.
\<close>

definition float_or_none :: "json \<Rightarrow> bool" where
  "float_or_none j = (case j of JNull \<Rightarrow> True | JNum _ \<Rightarrow> True | _ \<Rightarrow> False)"

text \<open>A funnel stage with data and the given uplift.\<close>

definition example_stage :: "string \<Rightarrow> string \<Rightarrow> real option \<Rightarrow> stage" where
  "example_stage m l u =
     \<lparr>st_metric = m, st_label = l, st_control = Some 0.2, st_variant = Some 0.2,
      st_uplift = u, st_confidence = Some 0.5, st_has_data = True\<rparr>"

text \<open>A segment result with the given name and verdict.\<close>

definition example_segment :: "string \<Rightarrow> verdict \<Rightarrow> segment_result" where
  "example_segment n v =
     \<lparr>seg_name = n, seg_type = ''Device'', seg_verdict_of = v, seg_uplift_of = None,
      seg_confidence_of = None, seg_visitors_of = 100, seg_revenue_opportunity = 0,
      seg_contradiction = False\<rparr>"

text \<open>A metric record for one variation with a value, a confidence and an uplift entry.\<close>

definition example_record :: "string \<Rightarrow> string \<Rightarrow> json \<Rightarrow> json \<Rightarrow> json \<Rightarrow> py_dict" where
  "example_record vid metric_name v p up =
     [(''variation_id'', JStr vid),
      (metric_name, JObj [(''value'', v), (''p2bb'', p), (''uplift'', up)])]"

definition example_variation :: "string \<Rightarrow> variation" where
  "example_variation vid = \<lparr>var_id = vid, var_name = vid, var_isControl = False\<rparr>"

text \<open>
  A feed of three variants: A has no uplift, B and C have the same uplift 0.1 with
  confidence bounds, and D has the smaller uplift 0.05.
\<close>

definition example_uplift :: "real \<Rightarrow> json" where
  "example_uplift u =
     JObj [(''value'', JNum u), (''ci_low'', JNum (- 0.02)), (''ci_high'', JNum 0.2)]"

definition example_feed :: "py_dict list" where
  "example_feed =
     [example_record ''A'' ''net_revenue_per_visitor'' (JNum 2) JNull JNull,
      example_record ''B'' ''net_revenue_per_visitor'' (JNum 2.2) (JNum 0.9) (example_uplift 0.1),
      example_record ''C'' ''net_revenue_per_visitor'' (JNum 2.2) (JNum 0.9) (example_uplift 0.1),
      example_record ''D'' ''net_revenue_per_visitor'' (JNum 2.1) (JNum 0.7) (example_uplift 0.05)]"

text \<open>
  A feed in which the record of B has \<^verbatim>\<open>null\<close> for the revenue metric, and the record
  of C an entry whose uplift is \<^verbatim>\<open>null\<close>.
\<close>

definition example_null_feed :: "py_dict list" where
  "example_null_feed =
     [[(''variation_id'', JStr ''B''), (''net_revenue_per_visitor'', JNull)],
      example_record ''C'' ''net_revenue_per_visitor'' (JNum 2.2) (JNum 0.9) JNull]"

section \<open>Theorems\<close>

lemmas config_defs =
  MIN_CONFIDENCE_def NEUTRAL_LIFT_THRESHOLD_def MIN_VISITORS_def
  VERDICT_MIN_RUNTIME_def VERDICT_MIN_ORDERS_def

subsection \<open>The overall classifier\<close>

text \<open>
  Claim C1. With the thresholds of ig\_config.py (0.80, 0.02, 10 days, 30 orders),
  \<open>compute_verdict\<close> of rollout.py and of debrief.py equals the specification's reference
  classifier on every input, and returns one of the five overall verdicts (never
  \<open>LOW_DATA\<close>). A runtime under 10 days or fewer than 30 orders gives \<open>TOO_EARLY\<close>
  whatever the confidence and uplift are, and so does an absent confidence or uplift;
  a confidence of exactly 0.80 passes the confidence test; an uplift of exactly 0.02 is
  neither \<open>WINNER\<close> nor \<open>LOSER\<close>.
\<close>

theorem compute_verdict_is_classify:
  "rollout_compute_verdict p2bb uplift days total_orders
     = classify_spec p2bb uplift days total_orders 10 30 0.80 0.02
   \<and> debrief_compute_verdict p2bb uplift days total_orders
     = classify_spec p2bb uplift days total_orders 10 30 0.80 0.02
   \<and> classify_spec p2bb uplift days total_orders 10 30 0.80 0.02
       \<in> {TOO_EARLY, WINNER, LOSER, FLAT, KEEP_RUNNING}
   \<and> (days < 10 \<or> total_orders < 30
        \<longrightarrow> rollout_compute_verdict p2bb uplift days total_orders = TOO_EARLY
          \<and> debrief_compute_verdict p2bb uplift days total_orders = TOO_EARLY)
   \<and> rollout_compute_verdict None uplift days total_orders = TOO_EARLY
   \<and> rollout_compute_verdict p2bb None days total_orders = TOO_EARLY
   \<and> debrief_compute_verdict None uplift days total_orders = TOO_EARLY
   \<and> debrief_compute_verdict p2bb None days total_orders = TOO_EARLY
   \<and> (10 \<le> days \<and> 30 \<le> total_orders \<and> 0.02 < u
        \<longrightarrow> rollout_compute_verdict (Some 0.80) (Some u) days total_orders = WINNER
          \<and> debrief_compute_verdict (Some 0.80) (Some u) days total_orders = WINNER)
   \<and> rollout_compute_verdict p2bb (Some 0.02) days total_orders \<notin> {WINNER, LOSER}
   \<and> debrief_compute_verdict p2bb (Some 0.02) days total_orders \<notin> {WINNER, LOSER}
   \<and> rollout_compute_verdict (Some 0.99) (Some 0.5) 5 100 = TOO_EARLY
   \<and> debrief_compute_verdict (Some 0.99) (Some 0.5) 5 100 = TOO_EARLY"
  by (simp add: rollout_compute_verdict_def debrief_compute_verdict_def classify_spec_def
      config_defs split: option.splits)

text \<open>
  The theorem at a test of 5 days with 100 orders, and at the boundary
  (confidence 0.80, uplift 0.021, 10 days, 30 orders).
\<close>

theorem compute_verdict_is_classify_witness:
  "((5::int) < 10 \<or> (100::int) < 30)
   \<and> rollout_compute_verdict (Some 0.99) (Some 0.5) 5 100 = TOO_EARLY
   \<and> ((10::int) \<le> 10 \<and> (30::int) \<le> 30 \<and> (0.02::real) < 0.021)
   \<and> rollout_compute_verdict (Some 0.80) (Some 0.021) 10 30 = WINNER
   \<and> debrief_compute_verdict (Some 0.80) (Some 0.021) 10 30 = WINNER"
  using compute_verdict_is_classify [of "Some 0.99" "Some 0.5" 5 100 "0.5"]
    compute_verdict_is_classify [of "Some 0.80" "Some 0.021" 10 30 "0.021"]
  by (simp add: classify_spec_def)

subsection \<open>The segment classifiers\<close>

text \<open>
  \<open>segment_verdict\<close> of spotlight.py and of rollout.py: \<open>LOW_DATA\<close> exactly when the
  confidence or the uplift is absent, never \<open>TOO_EARLY\<close>, and otherwise the rules of the
  reference classifier with both gates passed (the gates are set to the test's own runtime
  and order count).
\<close>

lemma segment_verdict_sites:
  "(spotlight_segment_verdict p2bb uplift days = LOW_DATA) = (p2bb = None \<or> uplift = None)
   \<and> (rollout_segment_verdict p2bb uplift days = LOW_DATA) = (p2bb = None \<or> uplift = None)
   \<and> spotlight_segment_verdict p2bb uplift days \<noteq> TOO_EARLY
   \<and> rollout_segment_verdict p2bb uplift days \<noteq> TOO_EARLY
   \<and> spotlight_segment_verdict (Some p) (Some u) days
       = classify_spec (Some p) (Some u) days total_orders days total_orders 0.80 0.02
   \<and> rollout_segment_verdict (Some p) (Some u) days
       = classify_spec (Some p) (Some u) days total_orders days total_orders 0.80 0.02"
  by (simp add: spotlight_segment_verdict_def rollout_segment_verdict_def classify_spec_def
      config_defs split: option.splits)

text \<open>
  Claim C2. The claim says that every segment classification site returns \<open>LOW_DATA\<close>
  when the confidence or the uplift is absent and never returns \<open>TOO_EARLY\<close>, the segment
  quick-check of verdict.py included. The quick-check tests the uplift only and hands the
  segment to \<open>variation_verdict\<close>: for a segment with an uplift of 0.05 and no confidence,
  after 30 days, it returns \<open>TOO_EARLY\<close>, where spotlight.py and rollout.py return
  \<open>LOW_DATA\<close>.
\<close>

theorem seg_verdict_too_early_without_p2bb:
  "seg_verdict None (Some 0.05) 30 = TOO_EARLY
   \<and> spotlight_segment_verdict None (Some 0.05) 30 = LOW_DATA
   \<and> rollout_segment_verdict None (Some 0.05) 30 = LOW_DATA"
  by (simp add: seg_verdict_def variation_verdict_def spotlight_segment_verdict_def
      rollout_segment_verdict_def)

subsection \<open>The contradiction flag\<close>

text \<open>
  Claim C5. In spotlight.py and in rollout.py the contradiction flag of a segment is true
  exactly when the overall uplift and the segment's uplift are both present and either the
  overall uplift is above 0.02 and the segment's below -0.02, or the reverse. It is false
  when either is absent and when either lies within 0.02 of zero. An overall uplift of 0.05
  with a segment uplift of -0.04 is a contradiction; with -0.01 it is not.
\<close>

theorem contradiction_flag_iff:
  "spotlight_contradiction overall_uplift seg_uplift
     = (\<exists>ou su. overall_uplift = Some ou \<and> seg_uplift = Some su
          \<and> ((ou > 0.02 \<and> su < - 0.02) \<or> (ou < - 0.02 \<and> su > 0.02)))
   \<and> rollout_contradiction overall_uplift seg_uplift
     = (\<exists>ou su. overall_uplift = Some ou \<and> seg_uplift = Some su
          \<and> ((ou > 0.02 \<and> su < - 0.02) \<or> (ou < - 0.02 \<and> su > 0.02)))
   \<and> \<not> spotlight_contradiction None seg_uplift
   \<and> \<not> spotlight_contradiction overall_uplift None
   \<and> \<not> rollout_contradiction None seg_uplift
   \<and> \<not> rollout_contradiction overall_uplift None
   \<and> (\<bar>a\<bar> \<le> 0.02 \<or> \<bar>b\<bar> \<le> 0.02
        \<longrightarrow> \<not> spotlight_contradiction (Some a) (Some b)
          \<and> \<not> rollout_contradiction (Some a) (Some b))
   \<and> spotlight_contradiction (Some 0.05) (Some (- 0.04))
   \<and> rollout_contradiction (Some 0.05) (Some (- 0.04))
   \<and> \<not> spotlight_contradiction (Some 0.05) (Some (- 0.01))
   \<and> \<not> rollout_contradiction (Some 0.05) (Some (- 0.01))"
  by (auto simp add: spotlight_contradiction_def rollout_contradiction_def config_defs
      split: option.splits)

text \<open>The theorem at an overall uplift of 0.05 and a segment uplift of -0.01.\<close>

theorem contradiction_flag_iff_witness:
  "(\<bar>0.05::real\<bar> \<le> 0.02 \<or> \<bar>- 0.01::real\<bar> \<le> 0.02)
   \<and> \<not> spotlight_contradiction (Some 0.05) (Some (- 0.01))
   \<and> \<not> rollout_contradiction (Some 0.05) (Some (- 0.01))"
  using contradiction_flag_iff [of "Some 0.05" "Some (- 0.01)" "0.05" "- 0.01"]
  by simp

subsection \<open>The revenue opportunity of a segment\<close>

text \<open>
  The true division raises for a zero divisor and for a quotient beyond the floats.
\<close>

lemma py_truediv_can_raise:
  "py_truediv 5 0 = Inl ZeroDivisionError \<and> py_truediv (2 ^ 1024) 1 = Inl OverflowError"
  by (simp add: py_truediv_def float_overflow_def)


lemma float_overflow_above: "(2::real) ^ 1023 < float_overflow"
proof -
  have "(2::real) ^ 970 < 2 ^ 1023"
    by (rule power_strict_increasing) simp_all
  moreover have "(2::real) ^ 1024 = 2 * 2 ^ 1023"
    by simp
  ultimately show ?thesis by (simp only: float_overflow_def)
qed

lemma py_truediv_count:
  assumes "0 < days" and "0 \<le> a" and "a < 2 ^ 1023"
  shows "py_truediv a days = Inr (real_of_int a / real_of_int days)"
proof -
  have nonneg: "0 \<le> real_of_int a / real_of_int days"
    using assms by simp
  have "real_of_int a / real_of_int days \<le> real_of_int a / 1"
    by (rule divide_left_mono) (use assms in simp_all)
  moreover from assms(3) have "real_of_int a < real_of_int (2 ^ 1023)"
    by (simp only: of_int_less_iff)
  then have "real_of_int a < 2 ^ 1023" by simp
  ultimately have "real_of_int a / real_of_int days < float_overflow"
    using float_overflow_above by simp
  with nonneg assms(1) show ?thesis
    by (simp add: py_truediv_def)
qed

text \<open>
  Claim C8. The visitor count of a segment is the sum of two visitor counts of the feed: it
  is not negative, and it is far below \<open>2 ^ 1023\<close>. For such a count
  \<open>compute_revenue_opportunity\<close> returns a number on every input: it does not raise and
  its result is not absent. The result is
  \<open>(seg_visitors / days) * (control_rpv * uplift) * 365\<close> when the uplift and the control
  value are present and the runtime is positive, and 0 when the uplift or the control value
  is absent or the runtime is not positive.
\<close>

theorem revenue_opportunity_formula:
  "(0 \<le> seg_visitors \<and> seg_visitors < 2 ^ 1023 \<longrightarrow>
      (\<exists>r. compute_revenue_opportunity seg_visitors uplift control_rpv days = Inr r)
    \<and> (0 < days \<longrightarrow>
          compute_revenue_opportunity seg_visitors (Some u) (Some rpv) days
            = Inr ((real_of_int seg_visitors / real_of_int days) * (rpv * u) * 365))
    \<and> (days \<le> 0 \<longrightarrow>
          compute_revenue_opportunity seg_visitors uplift control_rpv days = Inr 0))
   \<and> compute_revenue_opportunity seg_visitors None control_rpv days = Inr 0
   \<and> compute_revenue_opportunity seg_visitors uplift None days = Inr 0"
proof (intro conjI impI)
  assume dom: "0 \<le> seg_visitors \<and> seg_visitors < 2 ^ 1023"
  show "\<exists>r. compute_revenue_opportunity seg_visitors uplift control_rpv days = Inr r"
  proof (cases "0 < days \<and> 0 < seg_visitors")
    case True
    with dom have "py_truediv seg_visitors days
        = Inr (real_of_int seg_visitors / real_of_int days)"
      by (simp add: py_truediv_count)
    with True show ?thesis
      by (simp add: compute_revenue_opportunity_def Let_def split: option.splits)
  next
    case False
    then show ?thesis
      by (auto simp add: compute_revenue_opportunity_def split: option.splits)
  qed
next
  assume dom: "0 \<le> seg_visitors \<and> seg_visitors < 2 ^ 1023" and pos: "0 < days"
  show "compute_revenue_opportunity seg_visitors (Some u) (Some rpv) days
            = Inr ((real_of_int seg_visitors / real_of_int days) * (rpv * u) * 365)"
  proof (cases "seg_visitors = 0")
    case True
    then show ?thesis by (simp add: compute_revenue_opportunity_def)
  next
    case False
    with dom pos have "py_truediv seg_visitors days
        = Inr (real_of_int seg_visitors / real_of_int days)"
      by (simp add: py_truediv_count)
    with False dom pos show ?thesis
      by (simp add: compute_revenue_opportunity_def Let_def)
  qed
next
  assume "days \<le> 0"
  then show "compute_revenue_opportunity seg_visitors uplift control_rpv days = Inr 0"
    by (simp add: compute_revenue_opportunity_def split: option.splits)
next
  show "compute_revenue_opportunity seg_visitors None control_rpv days = Inr 0"
    by (simp add: compute_revenue_opportunity_def)
next
  show "compute_revenue_opportunity seg_visitors uplift None days = Inr 0"
    by (simp add: compute_revenue_opportunity_def split: option.splits)
qed

text \<open>
  The theorem at 1000 visitors, an uplift of 0.1 and a control value of 2, for 10 days and
  for 0 days, and at no visitors.
\<close>

theorem revenue_opportunity_formula_witness:
  "(0::int) \<le> 1000 \<and> (1000::int) < 2 ^ 1023 \<and> (0::int) < 10
   \<and> compute_revenue_opportunity 1000 (Some 0.1) (Some 2) 10 = Inr 7300
   \<and> compute_revenue_opportunity 1000 (Some 0.1) (Some 2) 0 = Inr 0
   \<and> compute_revenue_opportunity 0 (Some 0.1) (Some 2) 10 = Inr 0"
  using revenue_opportunity_formula [of 1000 "Some 0.1" "Some 2" 10 "0.1" 2]
    revenue_opportunity_formula [of 1000 "Some 0.1" "Some 2" 0 "0.1" 2]
    revenue_opportunity_formula [of 0 "Some 0.1" "Some 2" 10 "0.1" 2]
  by simp

subsection \<open>The visitor gate of verdict.py\<close>

text \<open>
  Claim C10. In verdict.py a test is too early when it ran under 10 days, has fewer than 30
  orders or has fewer than 100 visitors; so with fewer than 100 visitors the verdict of a
  variation is \<open>TOO_EARLY\<close> whatever the runtime, the orders, the confidence and the uplift
  are.
\<close>

theorem visitors_gate_forces_too_early:
  "is_too_early days total_orders total_visitors
     = (days < 10 \<or> total_orders < 30 \<or> total_visitors < 100)
   \<and> (total_visitors < 100
        \<longrightarrow> v_verdict p2bb uplift days total_orders total_visitors = TOO_EARLY)"
  by (simp add: v_verdict_def is_too_early_def maturity_issues_def config_defs)

text \<open>
  The theorem at 30 days, 100 orders and 99 visitors, for a variation that is a winner
  with 100 visitors.
\<close>

theorem visitors_gate_forces_too_early_witness:
  "(99::int) < 100 \<and> \<not> (30::int) < 10 \<and> \<not> (100::int) < 30
   \<and> variation_verdict (Some 0.99) (Some 0.5) 30 = WINNER
   \<and> v_verdict (Some 0.99) (Some 0.5) 30 100 99 = TOO_EARLY
   \<and> v_verdict (Some 0.99) (Some 0.5) 30 100 100 = WINNER"
  using visitors_gate_forces_too_early [of 30 100 99 "Some 0.99" "Some 0.5"]
  by (simp add: variation_verdict_def v_verdict_def is_too_early_def maturity_issues_def
      config_defs)

subsection \<open>The financial projection of impact.py\<close>

lemma impact_calculations_fields:
  assumes "0 < runtime"
  shows "\<exists>r. impact_calculations total_visitors runtime (Some c) (Some u) ci_low ci_high = Some r
        \<and> imp_annual_baseline r = (real_of_int total_visitors / real_of_int runtime) * 365 * c
        \<and> imp_expected_annual r = imp_annual_baseline r * u
        \<and> imp_expected_monthly r = imp_expected_annual r / 12
        \<and> imp_daily_impact r = imp_expected_annual r / 365
        \<and> imp_conservative_annual r
            = (case ci_low of
                 None \<Rightarrow> None
               | Some l \<Rightarrow> Some (if l > 0 then imp_annual_baseline r * l else 0))
        \<and> imp_optimistic_annual r
            = (case ci_high of None \<Rightarrow> None | Some h \<Rightarrow> Some (imp_annual_baseline r * h))"
  using assms
  by (simp add: impact_calculations_def daily_visitors_def Let_def split: option.splits)

lemma conservative_nonneg:
  fixes B :: real
  assumes "0 \<le> B"
    and "(case ci_low of None \<Rightarrow> None | Some l \<Rightarrow> Some (if l > 0 then B * l else 0)) = Some x"
  shows "0 \<le> x"
  using assms by (auto split: option.splits if_splits)

text \<open>
  Claim C4 says that the conservative annual figure is never negative. With a negative
  control value it is: 1000 visitors in 10 days, a control value of -2 and a lower bound of
  0.1 give a baseline of -73000 and a conservative figure of -7300.
\<close>

theorem impact_conservative_negative_counterexample:
  "(0::int) < 10
   \<and> map_option imp_conservative_annual
        (impact_calculations 1000 10 (Some (- 2)) (Some 0.1) (Some 0.1) (Some 0.2))
       = Some (Some (- 7300))"
  by (simp add: impact_calculations_def daily_visitors_def Let_def)

text \<open>
  Claim C4, amended. For a positive runtime, with the control value and the uplift present,
  the annual baseline is \<open>(total_visitors / runtime) * 365 * control_value\<close>, the expected
  annual figure is the baseline times the uplift, the monthly figure is a twelfth of it and
  the daily opportunity cost is the annual figure over 365. The conservative figure is the
  baseline times the lower bound when the bound is present and positive, and 0 when it is
  present and not positive; it is not negative when the baseline is not negative. The
  optimistic figure is the baseline times the upper bound when the bound is present, and
  absent when it is absent. For a control value of 2, 100 visitors a day, an uplift of 0.10
  and bounds -0.02 and 0.20 the figures are 73000, 7300, 0 and 14600.
\<close>

theorem impact_projection:
  "(0 < runtime \<longrightarrow>
     (\<exists>r. impact_calculations total_visitors runtime (Some c) (Some u) ci_low ci_high = Some r
        \<and> imp_annual_baseline r = (real_of_int total_visitors / real_of_int runtime) * 365 * c
        \<and> imp_expected_annual r = imp_annual_baseline r * u
        \<and> imp_expected_monthly r = imp_expected_annual r / 12
        \<and> imp_daily_impact r = imp_expected_annual r / 365
        \<and> imp_conservative_annual r
            = (case ci_low of
                 None \<Rightarrow> None
               | Some l \<Rightarrow> Some (if l > 0 then imp_annual_baseline r * l else 0))
        \<and> imp_optimistic_annual r
            = (case ci_high of None \<Rightarrow> None | Some h \<Rightarrow> Some (imp_annual_baseline r * h))
        \<and> (0 \<le> imp_annual_baseline r
             \<longrightarrow> (\<forall>x. imp_conservative_annual r = Some x \<longrightarrow> 0 \<le> x))))
   \<and> (\<exists>r. impact_calculations 1000 10 (Some 2) (Some 0.10) (Some (- 0.02)) (Some 0.20) = Some r
        \<and> imp_annual_baseline r = 73000
        \<and> imp_expected_annual r = 7300
        \<and> imp_conservative_annual r = Some 0
        \<and> imp_optimistic_annual r = Some 14600)"
proof (intro conjI impI)
  assume pos: "0 < runtime"
  from impact_calculations_fields [OF pos, of total_visitors c u ci_low ci_high]
  obtain r where r:
    "impact_calculations total_visitors runtime (Some c) (Some u) ci_low ci_high = Some r"
    "imp_annual_baseline r = (real_of_int total_visitors / real_of_int runtime) * 365 * c"
    "imp_expected_annual r = imp_annual_baseline r * u"
    "imp_expected_monthly r = imp_expected_annual r / 12"
    "imp_daily_impact r = imp_expected_annual r / 365"
    "imp_conservative_annual r
       = (case ci_low of
            None \<Rightarrow> None
          | Some l \<Rightarrow> Some (if l > 0 then imp_annual_baseline r * l else 0))"
    "imp_optimistic_annual r
       = (case ci_high of None \<Rightarrow> None | Some h \<Rightarrow> Some (imp_annual_baseline r * h))"
    by blast
  have "0 \<le> imp_annual_baseline r \<longrightarrow> (\<forall>x. imp_conservative_annual r = Some x \<longrightarrow> 0 \<le> x)"
    using conservative_nonneg [of "imp_annual_baseline r" ci_low] r(6) by auto
  with r show "\<exists>r. impact_calculations total_visitors runtime (Some c) (Some u) ci_low ci_high = Some r
        \<and> imp_annual_baseline r = (real_of_int total_visitors / real_of_int runtime) * 365 * c
        \<and> imp_expected_annual r = imp_annual_baseline r * u
        \<and> imp_expected_monthly r = imp_expected_annual r / 12
        \<and> imp_daily_impact r = imp_expected_annual r / 365
        \<and> imp_conservative_annual r
            = (case ci_low of
                 None \<Rightarrow> None
               | Some l \<Rightarrow> Some (if l > 0 then imp_annual_baseline r * l else 0))
        \<and> imp_optimistic_annual r
            = (case ci_high of None \<Rightarrow> None | Some h \<Rightarrow> Some (imp_annual_baseline r * h))
        \<and> (0 \<le> imp_annual_baseline r
             \<longrightarrow> (\<forall>x. imp_conservative_annual r = Some x \<longrightarrow> 0 \<le> x))"
    by blast
next
  show "\<exists>r. impact_calculations 1000 10 (Some 2) (Some 0.10) (Some (- 0.02)) (Some 0.20) = Some r
        \<and> imp_annual_baseline r = 73000
        \<and> imp_expected_annual r = 7300
        \<and> imp_conservative_annual r = Some 0
        \<and> imp_optimistic_annual r = Some 14600"
    by (simp add: impact_calculations_def daily_visitors_def Let_def)
qed

text \<open>The theorem at 1000 visitors in 10 days, with a lower bound of 0.05 and no upper bound.\<close>

theorem impact_projection_witness:
  "(0::int) < 10
   \<and> (\<exists>r. impact_calculations 1000 10 (Some 2) (Some 0.10) (Some 0.05) None = Some r
        \<and> imp_annual_baseline r = 73000
        \<and> imp_expected_annual r = 7300
        \<and> imp_expected_monthly r = 7300 / 12
        \<and> imp_daily_impact r = 20
        \<and> imp_conservative_annual r = Some 3650
        \<and> imp_optimistic_annual r = None)"
  using impact_projection [of 10 1000 2 "0.10" "Some 0.05" None]
  by auto


subsection \<open>The rollout recommendation\<close>

text \<open>
  Claim C6 gives a broad roll-out to every list with no loser and at least half winners.
  The empty list has no loser and 0 winners out of 0, and \<open>rollout_recommendation\<close>
  answers it first, with a hold for lack of segment data.
\<close>

theorem rollout_recommendation_empty_counterexample:
  "length (losers_of []) = 0
   \<and> real (length (winners_of [])) \<ge> real (length ([] :: segment_result list)) * 0.5
   \<and> rollout_recommendation [] = (HOLD, No_Segment_Data)"
  by (simp add: rollout_recommendation_def losers_of_def winners_of_def)

text \<open>
  Claim C6, amended. The empty list gives a hold for lack of segment data. For a list that
  is not empty: no loser and at least half winners give a broad roll-out; winners and
  losers together give the segment-specific recommendation, which names the first three
  winners and the first three losers; losers and no winner give do-not-roll-out; otherwise
  (no loser, fewer than half winners) more than half low-data segments give the hold for
  more data, and anything else the mixed-signal hold.
\<close>

theorem rollout_recommendation_rules:
  "rollout_recommendation [] = (HOLD, No_Segment_Data)
   \<and> (segments \<noteq> [] \<longrightarrow>
        (length (losers_of segments) = 0
           \<and> length segments \<le> 2 * length (winners_of segments)
         \<longrightarrow> rollout_recommendation segments = (ROLL_OUT, No_Losing_Segments))
      \<and> (0 < length (losers_of segments) \<and> 0 < length (winners_of segments)
         \<longrightarrow> rollout_recommendation segments
             = (SEGMENT_SPECIFIC,
                Roll_Out_Only
                  (join '', '' (map seg_name (take 3 (winners_of segments))))
                  (join '', '' (map seg_name (take 3 (losers_of segments))))
                  (if length (losers_of segments) = 1 then ''is'' else ''are'')))
      \<and> (0 < length (losers_of segments) \<and> length (winners_of segments) = 0
         \<longrightarrow> rollout_recommendation segments = (DONT_ROLL_OUT, No_Winning_Segments))
      \<and> (length (losers_of segments) = 0
           \<and> 2 * length (winners_of segments) < length segments
           \<and> length segments < 2 * length (low_data_of segments)
         \<longrightarrow> rollout_recommendation segments = (HOLD, Insufficient_Data))
      \<and> (length (losers_of segments) = 0
           \<and> 2 * length (winners_of segments) < length segments
           \<and> 2 * length (low_data_of segments) \<le> length segments
         \<longrightarrow> rollout_recommendation segments = (HOLD, Mixed_Signals)))"
  by (auto simp add: rollout_recommendation_def Let_def)

text \<open>
  The theorem at five lists of three segments, one for each rule.
\<close>

theorem rollout_recommendation_rules_witness:
  "rollout_recommendation
     [example_segment ''Mobile'' WINNER, example_segment ''Desktop'' WINNER,
      example_segment ''Tablet'' LOW_DATA] = (ROLL_OUT, No_Losing_Segments)
   \<and> rollout_recommendation
     [example_segment ''Mobile'' WINNER, example_segment ''Desktop'' LOSER,
      example_segment ''Tablet'' LOW_DATA]
     = (SEGMENT_SPECIFIC, Roll_Out_Only ''Mobile'' ''Desktop'' ''is'')
   \<and> rollout_recommendation
     [example_segment ''Mobile'' LOSER, example_segment ''Desktop'' LOSER,
      example_segment ''Tablet'' LOW_DATA] = (DONT_ROLL_OUT, No_Winning_Segments)
   \<and> rollout_recommendation
     [example_segment ''Mobile'' WINNER, example_segment ''Desktop'' LOW_DATA,
      example_segment ''Tablet'' LOW_DATA] = (HOLD, Insufficient_Data)
   \<and> rollout_recommendation
     [example_segment ''Mobile'' WINNER, example_segment ''Desktop'' FLAT,
      example_segment ''Tablet'' LOW_DATA] = (HOLD, Mixed_Signals)"
  using
    rollout_recommendation_rules [of "[example_segment ''Mobile'' WINNER,
      example_segment ''Desktop'' WINNER, example_segment ''Tablet'' LOW_DATA]"]
    rollout_recommendation_rules [of "[example_segment ''Mobile'' WINNER,
      example_segment ''Desktop'' LOSER, example_segment ''Tablet'' LOW_DATA]"]
    rollout_recommendation_rules [of "[example_segment ''Mobile'' LOSER,
      example_segment ''Desktop'' LOSER, example_segment ''Tablet'' LOW_DATA]"]
    rollout_recommendation_rules [of "[example_segment ''Mobile'' WINNER,
      example_segment ''Desktop'' LOW_DATA, example_segment ''Tablet'' LOW_DATA]"]
    rollout_recommendation_rules [of "[example_segment ''Mobile'' WINNER,
      example_segment ''Desktop'' FLAT, example_segment ''Tablet'' LOW_DATA]"]
  by (simp add: winners_of_def losers_of_def low_data_of_def example_segment_def)

subsection \<open>The funnel breakpoint\<close>

lemma direction_of_cases:
  "(direction_of u = Up) = (u > 0.005)"
  "(direction_of u = Down) = (u < - 0.005)"
  "(direction_of u = Flat) = (- 0.005 \<le> u \<and> u \<le> 0.005)"
  by (auto simp add: direction_of_def)

lemma moving_iff:
  "moving s = (\<exists>u. st_uplift s = Some u \<and> direction_of u \<noteq> Flat)"
  by (cases "st_uplift s") (auto simp add: moving_def stage_direction_def intro: direction.exhaust)

lemma find_breakpoint_loop_tracked:
  assumes "d \<noteq> Flat" and "stage_direction p = Some d"
  shows "find_breakpoint_loop (Some d) ss = first_flip (p # filter moving ss)"
  using assms
proof (induction ss arbitrary: p d)
  case Nil
  then show ?case by simp
next
  case (Cons s ss)
  show ?case
  proof (cases "st_uplift s")
    case None
    then have "\<not> moving s" by (simp add: moving_iff)
    with None Cons show ?thesis by simp
  next
    case (Some u)
    show ?thesis
    proof (cases "direction_of u = Flat")
      case True
      with Some have "\<not> moving s" by (simp add: moving_iff)
      with Some True Cons show ?thesis by simp
    next
      case False
      with Some have m: "moving s" by (simp add: moving_iff)
      have sd: "stage_direction s = Some (direction_of u)"
        using Some by (simp add: stage_direction_def)
      show ?thesis
      proof (cases "direction_of u = d")
        case True
        with Some False m sd Cons.prems Cons.IH [of "direction_of u" s] show ?thesis
          by simp
      next
        case diff: False
        with Some False m sd Cons.prems show ?thesis by simp
      qed
    qed
  qed
qed

lemma find_breakpoint_loop_start:
  "find_breakpoint_loop None ss = first_flip (filter moving ss)"
proof (induction ss)
  case Nil
  then show ?case by simp
next
  case (Cons s ss)
  show ?case
  proof (cases "st_uplift s")
    case None
    then have "\<not> moving s" by (simp add: moving_iff)
    with None Cons show ?thesis by simp
  next
    case (Some u)
    show ?thesis
    proof (cases "direction_of u = Flat")
      case True
      with Some have "\<not> moving s" by (simp add: moving_iff)
      with Some True Cons show ?thesis by simp
    next
      case False
      with Some have m: "moving s" by (simp add: moving_iff)
      have sd: "stage_direction s = Some (direction_of u)"
        using Some by (simp add: stage_direction_def)
      from find_breakpoint_loop_tracked [OF False sd]
      show ?thesis using Some False m by simp
    qed
  qed
qed

lemma first_flip_None_iff:
  "(first_flip xs = None) = (\<forall>a\<in>set xs. \<forall>b\<in>set xs. stage_direction a = stage_direction b)"
  by (induction xs rule: first_flip.induct) auto

lemma first_flip_Some_mem: "first_flip xs = Some t \<Longrightarrow> t \<in> set xs"
  by (induction xs rule: first_flip.induct) (auto split: if_splits)

lemma moving_two_directions:
  "moving a \<Longrightarrow> moving b \<Longrightarrow> stage_direction a \<noteq> stage_direction c \<Longrightarrow>
   stage_direction b \<noteq> stage_direction c \<Longrightarrow> moving c \<Longrightarrow> stage_direction a = stage_direction b"
  by (auto simp add: moving_def)

lemma first_flip_decomp:
  "first_flip xs = Some t \<Longrightarrow> list_all moving xs \<Longrightarrow>
   \<exists>pre post. xs = pre @ t # post \<and> pre \<noteq> []
      \<and> (\<forall>p\<in>set pre. stage_direction p \<noteq> stage_direction t)"
proof (induction xs rule: first_flip.induct)
  case 1
  then show ?case by simp
next
  case (2 s)
  then show ?case by simp
next
  case (3 s t' ts)
  show ?case
  proof (cases "stage_direction t' \<noteq> stage_direction s")
    case True
    with 3 have "t = t'" by simp
    with True have "s # t' # ts = [s] @ t # ts \<and> [s] \<noteq> []
      \<and> (\<forall>p\<in>set [s]. stage_direction p \<noteq> stage_direction t)" by auto
    then show ?thesis by blast
  next
    case False
    with 3 obtain pre post where d: "t' # ts = pre @ t # post" "pre \<noteq> []"
      "\<forall>p\<in>set pre. stage_direction p \<noteq> stage_direction t" by auto
    from d(1,2) have "t' \<in> set pre" by (cases pre) auto
    with d(3) False have "stage_direction s \<noteq> stage_direction t" by auto
    with d have "s # t' # ts = (s # pre) @ t # post \<and> s # pre \<noteq> []
      \<and> (\<forall>p\<in>set (s # pre). stage_direction p \<noteq> stage_direction t)" by auto
    then show ?thesis by blast
  qed
qed

lemma first_flip_compose:
  "pre \<noteq> [] \<Longrightarrow> list_all moving (pre @ [t]) \<Longrightarrow>
   \<forall>p\<in>set pre. stage_direction p \<noteq> stage_direction t \<Longrightarrow>
   first_flip (pre @ t # post) = Some t"
proof (induction pre)
  case Nil
  then show ?case by simp
next
  case (Cons a pre)
  show ?case
  proof (cases pre)
    case Nil
    with Cons.prems show ?thesis by auto
  next
    case (Cons b pre')
    with Cons.prems have "stage_direction b = stage_direction a"
      using moving_two_directions [of b a t] by auto
    with Cons Cons.prems Cons.IH show ?thesis by auto
  qed
qed


lemma filter_eq_append_ConsD:
  "filter P ys = as @ x # bs \<Longrightarrow>
   \<exists>us vs. ys = us @ x # vs \<and> filter P us = as \<and> P x \<and> filter P vs = bs"
proof (induction as arbitrary: ys)
  case Nil
  then have "filter P ys = x # bs" by simp
  from filter_eq_ConsD [OF this] obtain us vs where
    "ys = us @ x # vs" "\<forall>u\<in>set us. \<not> P u" "P x" "bs = filter P vs" by blast
  then have "ys = us @ x # vs \<and> filter P us = [] \<and> P x \<and> filter P vs = bs" by simp
  then show ?case by blast
next
  case (Cons a as)
  then have "filter P ys = a # (as @ x # bs)" by simp
  from filter_eq_ConsD [OF this] obtain us vs where
    a: "ys = us @ a # vs" "\<forall>u\<in>set us. \<not> P u" "P a" "as @ x # bs = filter P vs" by blast
  from Cons.IH [of vs] a(4) obtain us' vs' where
    b: "vs = us' @ x # vs'" "filter P us' = as" "P x" "filter P vs' = bs" by metis
  from a b have "ys = (us @ a # us') @ x # vs' \<and> filter P (us @ a # us') = a # as
      \<and> P x \<and> filter P vs' = bs" by simp
  then show ?case by blast
qed

lemma find_breakpoint_Some_iff:
  "(find_breakpoint stages = Some t) =
   (\<exists>pre post. stages = pre @ t # post \<and> moving t \<and> (\<exists>p\<in>set pre. moving p)
      \<and> (\<forall>p\<in>set pre. moving p \<longrightarrow> stage_direction p \<noteq> stage_direction t))"
proof
  assume "find_breakpoint stages = Some t"
  then have ff: "first_flip (filter moving stages) = Some t"
    by (simp add: find_breakpoint_def find_breakpoint_loop_start)
  have "list_all moving (filter moving stages)" by (simp add: list_all_iff)
  from first_flip_decomp [OF ff this] obtain fpre fpost where
    f: "filter moving stages = fpre @ t # fpost" "fpre \<noteq> []"
       "\<forall>p\<in>set fpre. stage_direction p \<noteq> stage_direction t" by blast
  from filter_eq_append_ConsD [OF f(1)] obtain pre post where
    d: "stages = pre @ t # post" "filter moving pre = fpre" "moving t" by blast
  from d(2) f(2) have "\<exists>p\<in>set pre. moving p"
    by (metis filter_False)
  moreover from d(2) f(3) have "\<forall>p\<in>set pre. moving p \<longrightarrow> stage_direction p \<noteq> stage_direction t"
    by auto
  ultimately show "\<exists>pre post. stages = pre @ t # post \<and> moving t \<and> (\<exists>p\<in>set pre. moving p)
      \<and> (\<forall>p\<in>set pre. moving p \<longrightarrow> stage_direction p \<noteq> stage_direction t)"
    using d by blast
next
  assume "\<exists>pre post. stages = pre @ t # post \<and> moving t \<and> (\<exists>p\<in>set pre. moving p)
      \<and> (\<forall>p\<in>set pre. moving p \<longrightarrow> stage_direction p \<noteq> stage_direction t)"
  then obtain pre post where
    d: "stages = pre @ t # post" "moving t" "\<exists>p\<in>set pre. moving p"
       "\<forall>p\<in>set pre. moving p \<longrightarrow> stage_direction p \<noteq> stage_direction t" by blast
  from d(3) have ne: "filter moving pre \<noteq> []" by (simp add: filter_empty_conv)
  have la: "list_all moving (filter moving pre @ [t])" using d(2) by (simp add: list_all_iff)
  have "\<forall>p\<in>set (filter moving pre). stage_direction p \<noteq> stage_direction t"
    using d(4) by simp
  from first_flip_compose [OF ne la this, of "filter moving post"]
  show "find_breakpoint stages = Some t"
    using d(1,2) by (simp add: find_breakpoint_def find_breakpoint_loop_start)
qed

lemma find_breakpoint_None_iff:
  "(find_breakpoint stages = None) =
   (\<forall>a\<in>set stages. \<forall>b\<in>set stages. moving a \<and> moving b \<longrightarrow> stage_direction a = stage_direction b)"
  by (auto simp add: find_breakpoint_def find_breakpoint_loop_start first_flip_None_iff)

lemma stage_direction_cases:
  "(stage_direction s = None) = (st_uplift s = None)"
  "(stage_direction s = Some Up) = (\<exists>u. st_uplift s = Some u \<and> 0.005 < u)"
  "(stage_direction s = Some Down) = (\<exists>u. st_uplift s = Some u \<and> u < - 0.005)"
  "(stage_direction s = Some Flat) = (\<exists>u. st_uplift s = Some u \<and> - 0.005 \<le> u \<and> u \<le> 0.005)"
  by (cases "st_uplift s"; simp add: stage_direction_def direction_of_cases)+

text \<open>
  Claim C3. \<open>find_breakpoint\<close> classifies a present uplift as up above 0.005, down below
  -0.005 and flat otherwise; stages with no uplift and flat stages do not take part. Its
  result is the first stage, among the stages that are up or down, whose direction differs
  from the stage before it: a stage \<open>t\<close> is returned exactly when the list splits at
  \<open>t\<close> so that \<open>t\<close> is up or down, some stage before it is up or down, and every such
  stage before it has the other direction. The result is absent exactly when all stages
  that are up or down have one direction. On the uplifts 0.10, 0.05, -0.03, -0.08 the third
  stage is returned; on 0.10, 0.001, -0.08 the flat stage is passed over and the third
  stage is returned, and so it is when the second stage has no uplift.
\<close>

theorem find_breakpoint_first_direction_change:
  "find_breakpoint stages = first_flip (filter moving stages)
   \<and> (stage_direction s = None) = (st_uplift s = None)
   \<and> (stage_direction s = Some Up) = (\<exists>u. st_uplift s = Some u \<and> 0.005 < u)
   \<and> (stage_direction s = Some Down) = (\<exists>u. st_uplift s = Some u \<and> u < - 0.005)
   \<and> (stage_direction s = Some Flat)
       = (\<exists>u. st_uplift s = Some u \<and> - 0.005 \<le> u \<and> u \<le> 0.005)
   \<and> (find_breakpoint stages = Some t)
       = (\<exists>pre post. stages = pre @ t # post \<and> moving t \<and> (\<exists>p\<in>set pre. moving p)
            \<and> (\<forall>p\<in>set pre. moving p \<longrightarrow> stage_direction p \<noteq> stage_direction t))
   \<and> (find_breakpoint stages = None)
       = (\<forall>a\<in>set stages. \<forall>b\<in>set stages.
            moving a \<and> moving b \<longrightarrow> stage_direction a = stage_direction b)
   \<and> find_breakpoint
        [example_stage ''add_to_cart_rate'' ''Add to Cart'' (Some 0.10),
         example_stage ''checkout_begin_rate'' ''Begin Checkout'' (Some 0.05),
         example_stage ''checkout_enter_contact_info_rate'' ''Enter Contact Info'' (Some (- 0.03)),
         example_stage ''checkout_address_submitted_rate'' ''Submit Address'' (Some (- 0.08))]
       = Some (example_stage ''checkout_enter_contact_info_rate'' ''Enter Contact Info''
                 (Some (- 0.03)))
   \<and> find_breakpoint
        [example_stage ''add_to_cart_rate'' ''Add to Cart'' (Some 0.10),
         example_stage ''checkout_begin_rate'' ''Begin Checkout'' (Some 0.001),
         example_stage ''conversion_rate'' ''Purchase'' (Some (- 0.08))]
       = Some (example_stage ''conversion_rate'' ''Purchase'' (Some (- 0.08)))
   \<and> find_breakpoint
        [example_stage ''add_to_cart_rate'' ''Add to Cart'' (Some 0.10),
         example_stage ''checkout_begin_rate'' ''Begin Checkout'' None,
         example_stage ''conversion_rate'' ''Purchase'' (Some (- 0.08))]
       = Some (example_stage ''conversion_rate'' ''Purchase'' (Some (- 0.08)))"
proof -
  have ex: "find_breakpoint
        [example_stage ''add_to_cart_rate'' ''Add to Cart'' (Some 0.10),
         example_stage ''checkout_begin_rate'' ''Begin Checkout'' (Some 0.05),
         example_stage ''checkout_enter_contact_info_rate'' ''Enter Contact Info'' (Some (- 0.03)),
         example_stage ''checkout_address_submitted_rate'' ''Submit Address'' (Some (- 0.08))]
       = Some (example_stage ''checkout_enter_contact_info_rate'' ''Enter Contact Info''
                 (Some (- 0.03)))"
    "find_breakpoint
        [example_stage ''add_to_cart_rate'' ''Add to Cart'' (Some 0.10),
         example_stage ''checkout_begin_rate'' ''Begin Checkout'' (Some 0.001),
         example_stage ''conversion_rate'' ''Purchase'' (Some (- 0.08))]
       = Some (example_stage ''conversion_rate'' ''Purchase'' (Some (- 0.08)))"
    "find_breakpoint
        [example_stage ''add_to_cart_rate'' ''Add to Cart'' (Some 0.10),
         example_stage ''checkout_begin_rate'' ''Begin Checkout'' None,
         example_stage ''conversion_rate'' ''Purchase'' (Some (- 0.08))]
       = Some (example_stage ''conversion_rate'' ''Purchase'' (Some (- 0.08)))"
    by (simp_all add: find_breakpoint_def example_stage_def direction_of_def)
  show ?thesis
    using ex find_breakpoint_Some_iff [of stages t] find_breakpoint_None_iff [of stages]
      stage_direction_cases [of s]
    by (simp only: find_breakpoint_def find_breakpoint_loop_start simp_thms)
qed

text \<open>The theorem at the stages with uplifts 0.10, 0.001 and -0.08.\<close>

theorem find_breakpoint_first_direction_change_witness:
  "find_breakpoint
        [example_stage ''add_to_cart_rate'' ''Add to Cart'' (Some 0.10),
         example_stage ''checkout_begin_rate'' ''Begin Checkout'' (Some 0.001),
         example_stage ''conversion_rate'' ''Purchase'' (Some (- 0.08))]
       = Some (example_stage ''conversion_rate'' ''Purchase'' (Some (- 0.08)))
   \<and> (\<exists>pre post.
        [example_stage ''add_to_cart_rate'' ''Add to Cart'' (Some 0.10),
         example_stage ''checkout_begin_rate'' ''Begin Checkout'' (Some 0.001),
         example_stage ''conversion_rate'' ''Purchase'' (Some (- 0.08))]
        = pre @ example_stage ''conversion_rate'' ''Purchase'' (Some (- 0.08)) # post
        \<and> moving (example_stage ''conversion_rate'' ''Purchase'' (Some (- 0.08)))
        \<and> (\<exists>p\<in>set pre. moving p)
        \<and> (\<forall>p\<in>set pre. moving p \<longrightarrow> stage_direction p
              \<noteq> stage_direction (example_stage ''conversion_rate'' ''Purchase'' (Some (- 0.08)))))"
proof -
  let ?xs = "[example_stage ''add_to_cart_rate'' ''Add to Cart'' (Some 0.10),
         example_stage ''checkout_begin_rate'' ''Begin Checkout'' (Some 0.001),
         example_stage ''conversion_rate'' ''Purchase'' (Some (- 0.08))]"
  let ?t = "example_stage ''conversion_rate'' ''Purchase'' (Some (- 0.08))"
  have fb: "find_breakpoint ?xs = Some ?t"
    by (simp add: find_breakpoint_def example_stage_def direction_of_def)
  note inst = find_breakpoint_first_direction_change [of ?xs ?t ?t]
  note eqv = inst [THEN conjunct2, THEN conjunct2, THEN conjunct2, THEN conjunct2,
      THEN conjunct2, THEN conjunct1]
  from fb eqv show ?thesis by blast
qed


subsection \<open>The metric accessors\<close>

lemma dict_get_cases:
  "map_of d k = None \<Longrightarrow> dict_get d k = JNull"
  "map_of d k = Some v \<Longrightarrow> dict_get d k = v"
  by (simp_all add: dict_get_def)

lemma accessors_skip_prefix:
  assumes "\<forall>r\<in>set pre. dict_get r ''variation_id'' \<noteq> JStr vid"
  shows "get_metric_value (pre @ rest) name vid = get_metric_value rest name vid"
    and "get_metric_uplift (pre @ rest) name vid = get_metric_uplift rest name vid"
    and "get_metric_confidence (pre @ rest) name vid = get_metric_confidence rest name vid"
    and "get_metric_ci (pre @ rest) name vid = get_metric_ci rest name vid"
  using assms by (induction pre) simp_all

lemma accessors_no_match:
  assumes "\<forall>r\<in>set metrics. dict_get r ''variation_id'' \<noteq> JStr vid"
  shows "get_metric_value metrics name vid = JNull"
    and "get_metric_uplift metrics name vid = JNull"
    and "get_metric_confidence metrics name vid = JNull"
    and "get_metric_ci metrics name vid = (JNull, JNull)"
  using accessors_skip_prefix [OF assms, of "[]" name] by simp_all

lemma accessors_metric_missing:
  assumes "dict_get m ''variation_id'' = JStr vid" and "map_of m name = None"
  shows "get_metric_value (m # post) name vid = JNull"
    and "get_metric_uplift (m # post) name vid = JNull"
    and "get_metric_confidence (m # post) name vid = JNull"
    and "get_metric_ci (m # post) name vid = (JNull, JNull)"
  using assms by (simp_all add: dict_get_default_def dict_get_def)

lemma accessors_metric_dict:
  assumes "dict_get m ''variation_id'' = JStr vid" and "map_of m name = Some (JObj data)"
  shows "get_metric_value (m # post) name vid = dict_get data ''value''"
    and "get_metric_confidence (m # post) name vid = dict_get data ''p2bb''"
  using assms by (simp_all add: dict_get_default_def dict_get_def)

lemma accessors_uplift_missing:
  assumes "dict_get m ''variation_id'' = JStr vid" and "map_of m name = Some (JObj data)"
    and "map_of data ''uplift'' = None"
  shows "get_metric_uplift (m # post) name vid = JNull"
    and "get_metric_ci (m # post) name vid = (JNull, JNull)"
  using assms by (simp_all add: dict_get_default_def dict_get_def)

lemma accessors_uplift_dict:
  assumes "dict_get m ''variation_id'' = JStr vid" and "map_of m name = Some (JObj data)"
    and "map_of data ''uplift'' = Some (JObj up)"
  shows "get_metric_uplift (m # post) name vid = dict_get up ''value''"
    and "get_metric_ci (m # post) name vid = (dict_get up ''ci_low'', dict_get up ''ci_high'')"
  using assms by (simp_all add: dict_get_default_def dict_get_def)

lemma is_dict_iff: "is_dict y = (\<exists>d. y = JObj d)"
  by (cases y) (simp_all add: is_dict_def)

lemma accessors_metric_not_dict:
  assumes "dict_get m ''variation_id'' = JStr vid" and "map_of m name = Some y"
    and "\<not> is_dict y"
  shows "get_metric_value (m # post) name vid = get_metric_value post name vid"
    and "get_metric_uplift (m # post) name vid = get_metric_uplift post name vid"
    and "get_metric_confidence (m # post) name vid = get_metric_confidence post name vid"
    and "get_metric_ci (m # post) name vid = get_metric_ci post name vid"
  using assms by (cases y; simp add: dict_get_default_def is_dict_def)+

lemma accessors_uplift_not_dict:
  assumes "dict_get m ''variation_id'' = JStr vid" and "map_of m name = Some (JObj data)"
    and "map_of data ''uplift'' = Some y" and "\<not> is_dict y"
  shows "get_metric_uplift (m # post) name vid = get_metric_uplift post name vid"
    and "get_metric_ci (m # post) name vid = get_metric_ci post name vid"
  using assms by (cases y; simp add: dict_get_default_def is_dict_def)+

lemma py_accessors_on_dicts:
  "py_get_metric_value (map JObj metrics) name vid = Inr (get_metric_value metrics name vid)"
  "py_get_metric_uplift (map JObj metrics) name vid = Inr (get_metric_uplift metrics name vid)"
  "py_get_metric_confidence (map JObj metrics) name vid
     = Inr (get_metric_confidence metrics name vid)"
  "py_get_metric_ci (map JObj metrics) name vid = Inr (get_metric_ci metrics name vid)"
  by (induction metrics;
      simp add: py_get_def py_get_default_def is_dict_def split: json.splits)+

lemma py_accessors_can_raise:
  "py_get_metric_value [JNull] name vid = Inl AttributeError
   \<and> py_get_metric_uplift [JNum 1] name vid = Inl AttributeError
   \<and> py_get_metric_confidence [JStr ''x''] name vid = Inl AttributeError
   \<and> py_get_metric_ci [JNull] name vid = Inl AttributeError"
  by (simp add: py_get_def)

text \<open>
  Claim C9. On every feed that is a list of dictionaries, each of the four accessors of
  ig\_metrics.py returns a value and does not raise, whatever the dictionaries hold: the
  functions with the failing attribute lookups return what the accessors on dictionaries
  return. An accessor returns \<^verbatim>\<open>None\<close> (a pair of them for the bounds) when no record
  of the feed has the variation id. At the first record that has it:
  \<^item> when the record has no entry for the metric, the result is \<^verbatim>\<open>None\<close>;
  \<^item> when the entry is a dictionary, the value and the confidence are its \<^verbatim>\<open>value\<close>
    and \<^verbatim>\<open>p2bb\<close>; the uplift and the bounds are \<^verbatim>\<open>None\<close> when it has no
    \<^verbatim>\<open>uplift\<close>, and the \<^verbatim>\<open>value\<close>, \<^verbatim>\<open>ci_low\<close> and \<^verbatim>\<open>ci_high\<close> of the
    uplift when that is a dictionary;
  \<^item> when the entry, or its uplift, is there and is not a dictionary (\<^verbatim>\<open>null\<close>, a
    number, a string), the record is passed over: the result is that of the records behind
    it, so it is \<^verbatim>\<open>None\<close> when none of them has the variation id.
  A field that is read is \<^verbatim>\<open>None\<close> when it is missing and the stored value, unchanged,
  when it is there.
\<close>

theorem accessors_absent_or_as_is:
  "py_get_metric_value (map JObj metrics) name vid = Inr (get_metric_value metrics name vid)
   \<and> py_get_metric_uplift (map JObj metrics) name vid = Inr (get_metric_uplift metrics name vid)
   \<and> py_get_metric_confidence (map JObj metrics) name vid
       = Inr (get_metric_confidence metrics name vid)
   \<and> py_get_metric_ci (map JObj metrics) name vid = Inr (get_metric_ci metrics name vid)
   \<and> ((\<forall>r\<in>set metrics. dict_get r ''variation_id'' \<noteq> JStr vid) \<longrightarrow>
       get_metric_value metrics name vid = JNull
     \<and> get_metric_uplift metrics name vid = JNull
     \<and> get_metric_confidence metrics name vid = JNull
     \<and> get_metric_ci metrics name vid = (JNull, JNull))
   \<and> ((\<forall>r\<in>set pre. dict_get r ''variation_id'' \<noteq> JStr vid)
        \<and> dict_get m ''variation_id'' = JStr vid \<longrightarrow>
         (map_of m name = None \<longrightarrow>
             get_metric_value (pre @ m # post) name vid = JNull
           \<and> get_metric_uplift (pre @ m # post) name vid = JNull
           \<and> get_metric_confidence (pre @ m # post) name vid = JNull
           \<and> get_metric_ci (pre @ m # post) name vid = (JNull, JNull))
       \<and> (\<forall>data. map_of m name = Some (JObj data) \<longrightarrow>
             get_metric_value (pre @ m # post) name vid = dict_get data ''value''
           \<and> get_metric_confidence (pre @ m # post) name vid = dict_get data ''p2bb''
           \<and> (map_of data ''uplift'' = None \<longrightarrow>
                 get_metric_uplift (pre @ m # post) name vid = JNull
               \<and> get_metric_ci (pre @ m # post) name vid = (JNull, JNull))
           \<and> (\<forall>up. map_of data ''uplift'' = Some (JObj up) \<longrightarrow>
                 get_metric_uplift (pre @ m # post) name vid = dict_get up ''value''
               \<and> get_metric_ci (pre @ m # post) name vid
                   = (dict_get up ''ci_low'', dict_get up ''ci_high''))
           \<and> (\<forall>y. map_of data ''uplift'' = Some y \<and> \<not> is_dict y \<longrightarrow>
                 get_metric_uplift (pre @ m # post) name vid = get_metric_uplift post name vid
               \<and> get_metric_ci (pre @ m # post) name vid = get_metric_ci post name vid
               \<and> ((\<forall>r\<in>set post. dict_get r ''variation_id'' \<noteq> JStr vid) \<longrightarrow>
                     get_metric_uplift (pre @ m # post) name vid = JNull
                   \<and> get_metric_ci (pre @ m # post) name vid = (JNull, JNull))))
       \<and> (\<forall>y. map_of m name = Some y \<and> \<not> is_dict y \<longrightarrow>
             get_metric_value (pre @ m # post) name vid = get_metric_value post name vid
           \<and> get_metric_uplift (pre @ m # post) name vid = get_metric_uplift post name vid
           \<and> get_metric_confidence (pre @ m # post) name vid
               = get_metric_confidence post name vid
           \<and> get_metric_ci (pre @ m # post) name vid = get_metric_ci post name vid
           \<and> ((\<forall>r\<in>set post. dict_get r ''variation_id'' \<noteq> JStr vid) \<longrightarrow>
                 get_metric_value (pre @ m # post) name vid = JNull
               \<and> get_metric_uplift (pre @ m # post) name vid = JNull
               \<and> get_metric_confidence (pre @ m # post) name vid = JNull
               \<and> get_metric_ci (pre @ m # post) name vid = (JNull, JNull))))
   \<and> (map_of d k = None \<longrightarrow> dict_get d k = JNull)
   \<and> (\<forall>v. map_of d k = Some v \<longrightarrow> dict_get d k = v)"
proof (intro conjI impI allI)
  show "py_get_metric_value (map JObj metrics) name vid = Inr (get_metric_value metrics name vid)"
    by (rule py_accessors_on_dicts)
  show "py_get_metric_uplift (map JObj metrics) name vid
          = Inr (get_metric_uplift metrics name vid)"
    by (rule py_accessors_on_dicts)
  show "py_get_metric_confidence (map JObj metrics) name vid
          = Inr (get_metric_confidence metrics name vid)"
    by (rule py_accessors_on_dicts)
  show "py_get_metric_ci (map JObj metrics) name vid = Inr (get_metric_ci metrics name vid)"
    by (rule py_accessors_on_dicts)
next
  assume "\<forall>r\<in>set metrics. dict_get r ''variation_id'' \<noteq> JStr vid"
  note nm = accessors_no_match [OF this, of name]
  show "get_metric_value metrics name vid = JNull" by (rule nm)
  show "get_metric_uplift metrics name vid = JNull" by (rule nm)
  show "get_metric_confidence metrics name vid = JNull" by (rule nm)
  show "get_metric_ci metrics name vid = (JNull, JNull)" by (rule nm)
next
  assume a: "(\<forall>r\<in>set pre. dict_get r ''variation_id'' \<noteq> JStr vid)
        \<and> dict_get m ''variation_id'' = JStr vid" and b: "map_of m name = None"
  from a have p: "\<forall>r\<in>set pre. dict_get r ''variation_id'' \<noteq> JStr vid"
    and mm: "dict_get m ''variation_id'' = JStr vid" by blast+
  show "get_metric_value (pre @ m # post) name vid = JNull"
    by (simp only: accessors_skip_prefix [OF p] accessors_metric_missing [OF mm b])
  show "get_metric_uplift (pre @ m # post) name vid = JNull"
    by (simp only: accessors_skip_prefix [OF p] accessors_metric_missing [OF mm b])
  show "get_metric_confidence (pre @ m # post) name vid = JNull"
    by (simp only: accessors_skip_prefix [OF p] accessors_metric_missing [OF mm b])
  show "get_metric_ci (pre @ m # post) name vid = (JNull, JNull)"
    by (simp only: accessors_skip_prefix [OF p] accessors_metric_missing [OF mm b])
next
  fix data
  assume a: "(\<forall>r\<in>set pre. dict_get r ''variation_id'' \<noteq> JStr vid)
        \<and> dict_get m ''variation_id'' = JStr vid" and b: "map_of m name = Some (JObj data)"
  from a have p: "\<forall>r\<in>set pre. dict_get r ''variation_id'' \<noteq> JStr vid"
    and mm: "dict_get m ''variation_id'' = JStr vid" by blast+
  show "get_metric_value (pre @ m # post) name vid = dict_get data ''value''"
    by (simp only: accessors_skip_prefix [OF p] accessors_metric_dict [OF mm b])
  show "get_metric_confidence (pre @ m # post) name vid = dict_get data ''p2bb''"
    by (simp only: accessors_skip_prefix [OF p] accessors_metric_dict [OF mm b])
  {
    assume c: "map_of data ''uplift'' = None"
    show "get_metric_uplift (pre @ m # post) name vid = JNull"
      by (simp only: accessors_skip_prefix [OF p] accessors_uplift_missing [OF mm b c])
    show "get_metric_ci (pre @ m # post) name vid = (JNull, JNull)"
      by (simp only: accessors_skip_prefix [OF p] accessors_uplift_missing [OF mm b c])
  }
  {
    fix up
    assume c: "map_of data ''uplift'' = Some (JObj up)"
    show "get_metric_uplift (pre @ m # post) name vid = dict_get up ''value''"
      by (simp only: accessors_skip_prefix [OF p] accessors_uplift_dict [OF mm b c])
    show "get_metric_ci (pre @ m # post) name vid
            = (dict_get up ''ci_low'', dict_get up ''ci_high'')"
      by (simp only: accessors_skip_prefix [OF p] accessors_uplift_dict [OF mm b c])
  }
  {
    fix y
    assume c: "map_of data ''uplift'' = Some y \<and> \<not> is_dict y"
    then have c1: "map_of data ''uplift'' = Some y" and c2: "\<not> is_dict y" by blast+
    show up: "get_metric_uplift (pre @ m # post) name vid = get_metric_uplift post name vid"
      by (simp only: accessors_skip_prefix [OF p] accessors_uplift_not_dict [OF mm b c1 c2])
    show ci: "get_metric_ci (pre @ m # post) name vid = get_metric_ci post name vid"
      by (simp only: accessors_skip_prefix [OF p] accessors_uplift_not_dict [OF mm b c1 c2])
    {
      assume "\<forall>r\<in>set post. dict_get r ''variation_id'' \<noteq> JStr vid"
      note nm = accessors_no_match [OF this, of name]
      show "get_metric_uplift (pre @ m # post) name vid = JNull"
        by (simp only: up nm)
      show "get_metric_ci (pre @ m # post) name vid = (JNull, JNull)"
        by (simp only: ci nm)
    }
  }
next
  fix y
  assume a: "(\<forall>r\<in>set pre. dict_get r ''variation_id'' \<noteq> JStr vid)
        \<and> dict_get m ''variation_id'' = JStr vid"
    and b: "map_of m name = Some y \<and> \<not> is_dict y"
  from a have p: "\<forall>r\<in>set pre. dict_get r ''variation_id'' \<noteq> JStr vid"
    and mm: "dict_get m ''variation_id'' = JStr vid" by blast+
  from b have b1: "map_of m name = Some y" and b2: "\<not> is_dict y" by blast+
  show v: "get_metric_value (pre @ m # post) name vid = get_metric_value post name vid"
    by (simp only: accessors_skip_prefix [OF p] accessors_metric_not_dict [OF mm b1 b2])
  show u: "get_metric_uplift (pre @ m # post) name vid = get_metric_uplift post name vid"
    by (simp only: accessors_skip_prefix [OF p] accessors_metric_not_dict [OF mm b1 b2])
  show c: "get_metric_confidence (pre @ m # post) name vid
      = get_metric_confidence post name vid"
    by (simp only: accessors_skip_prefix [OF p] accessors_metric_not_dict [OF mm b1 b2])
  show i: "get_metric_ci (pre @ m # post) name vid = get_metric_ci post name vid"
    by (simp only: accessors_skip_prefix [OF p] accessors_metric_not_dict [OF mm b1 b2])
  {
    assume "\<forall>r\<in>set post. dict_get r ''variation_id'' \<noteq> JStr vid"
    note nm = accessors_no_match [OF this, of name]
    show "get_metric_value (pre @ m # post) name vid = JNull" by (simp only: v nm)
    show "get_metric_uplift (pre @ m # post) name vid = JNull" by (simp only: u nm)
    show "get_metric_confidence (pre @ m # post) name vid = JNull" by (simp only: c nm)
    show "get_metric_ci (pre @ m # post) name vid = (JNull, JNull)" by (simp only: i nm)
  }
next
  assume "map_of d k = None"
  then show "dict_get d k = JNull" by (rule dict_get_cases)
next
  fix v
  assume "map_of d k = Some v"
  then show "dict_get d k = v" by (rule dict_get_cases)
qed

text \<open>
  The theorem on the example feed, at the id E, which no record has, and at the record of
  B, which stands behind the record of A; and on the feed with \<^verbatim>\<open>null\<close> entries.
\<close>

theorem accessors_absent_or_as_is_witness:
  "get_metric_value example_feed ''net_revenue_per_visitor'' ''E'' = JNull
   \<and> get_metric_ci example_feed ''net_revenue_per_visitor'' ''E'' = (JNull, JNull)
   \<and> get_metric_uplift example_feed ''conversion_rate'' ''B'' = JNull
   \<and> get_metric_value example_feed ''net_revenue_per_visitor'' ''B'' = JNum 2.2
   \<and> get_metric_confidence example_feed ''net_revenue_per_visitor'' ''B'' = JNum 0.9
   \<and> get_metric_uplift example_feed ''net_revenue_per_visitor'' ''B'' = JNum 0.1
   \<and> get_metric_ci example_feed ''net_revenue_per_visitor'' ''B'' = (JNum (- 0.02), JNum 0.2)
   \<and> get_metric_confidence example_feed ''net_revenue_per_visitor'' ''A'' = JNull
   \<and> get_metric_uplift example_feed ''net_revenue_per_visitor'' ''A'' = JNull
   \<and> py_get_metric_value (map JObj example_null_feed) ''net_revenue_per_visitor'' ''B''
       = Inr JNull
   \<and> py_get_metric_ci (map JObj example_null_feed) ''net_revenue_per_visitor'' ''B''
       = Inr (JNull, JNull)
   \<and> py_get_metric_value (map JObj example_null_feed) ''net_revenue_per_visitor'' ''C''
       = Inr (JNum 2.2)
   \<and> py_get_metric_uplift (map JObj example_null_feed) ''net_revenue_per_visitor'' ''C''
       = Inr JNull
   \<and> py_get_metric_ci (map JObj example_null_feed) ''net_revenue_per_visitor'' ''C''
       = Inr (JNull, JNull)"
  using
    accessors_absent_or_as_is [of example_feed "''net_revenue_per_visitor''" "''E''"]
    accessors_absent_or_as_is [of example_feed "''net_revenue_per_visitor''" "''B''"
      "[example_record ''A'' ''net_revenue_per_visitor'' (JNum 2) JNull JNull]"
      "example_record ''B'' ''net_revenue_per_visitor'' (JNum 2.2) (JNum 0.9) (example_uplift 0.1)"
      "[example_record ''C'' ''net_revenue_per_visitor'' (JNum 2.2) (JNum 0.9) (example_uplift 0.1),
        example_record ''D'' ''net_revenue_per_visitor'' (JNum 2.1) (JNum 0.7) (example_uplift 0.05)]"]
    accessors_absent_or_as_is [of example_null_feed "''net_revenue_per_visitor''" "''B''"
      "[]" "[(''variation_id'', JStr ''B''), (''net_revenue_per_visitor'', JNull)]"
      "[example_record ''C'' ''net_revenue_per_visitor'' (JNum 2.2) (JNum 0.9) JNull]"]
    accessors_absent_or_as_is [of example_null_feed "''net_revenue_per_visitor''" "''C''"
      "[[(''variation_id'', JStr ''B''), (''net_revenue_per_visitor'', JNull)]]"
      "example_record ''C'' ''net_revenue_per_visitor'' (JNum 2.2) (JNum 0.9) JNull"
      "[]"]
  by (simp add: example_feed_def example_null_feed_def example_record_def example_uplift_def
      dict_get_def dict_get_default_def is_dict_def)


subsection \<open>The best variant\<close>

lemma float_or_none_cases:
  "float_or_none j \<Longrightarrow> j = JNull \<or> (\<exists>x. j = JNum x)"
  by (cases j) (simp_all add: float_or_none_def)

lemma pick_best_variant_loop_tracked:
  assumes "\<forall>v\<in>set vs. float_or_none (get_metric_uplift metrics metric_name (var_id v))"
  shows "\<exists>b'. pick_best_variant_loop vs metrics metric_name (Some b) (JNum r) = Inr (Some b')
     \<and> ((b' = b \<and> (\<forall>v\<in>set vs. \<forall>x. get_metric_uplift metrics metric_name (var_id v) = JNum x
                        \<longrightarrow> x \<le> r))
        \<or> (\<exists>pre post u. vs = pre @ b' # post
              \<and> get_metric_uplift metrics metric_name (var_id b') = JNum u \<and> r < u
              \<and> (\<forall>v\<in>set pre. \<forall>x. get_metric_uplift metrics metric_name (var_id v) = JNum x
                     \<longrightarrow> x < u)
              \<and> (\<forall>v\<in>set post. \<forall>x. get_metric_uplift metrics metric_name (var_id v) = JNum x
                     \<longrightarrow> x \<le> u)))"
  using assms
proof (induction vs arbitrary: b r)
  case Nil
  then show ?case by simp
next
  case (Cons v vs)
  let ?U = "\<lambda>w. get_metric_uplift metrics metric_name (var_id w)"
  from Cons.prems have typed: "\<forall>w\<in>set vs. float_or_none (?U w)" and fv: "float_or_none (?U v)"
    by simp_all
  from float_or_none_cases [OF fv] consider (null) "?U v = JNull" | (num) x where "?U v = JNum x"
    by blast
  then show ?case
  proof cases
    case null
    from Cons.IH [OF typed, of b r] obtain b' where
      run: "pick_best_variant_loop vs metrics metric_name (Some b) (JNum r) = Inr (Some b')"
      and alt: "(b' = b \<and> (\<forall>w\<in>set vs. \<forall>x. ?U w = JNum x \<longrightarrow> x \<le> r))
        \<or> (\<exists>pre post u. vs = pre @ b' # post \<and> ?U b' = JNum u \<and> r < u
              \<and> (\<forall>w\<in>set pre. \<forall>x. ?U w = JNum x \<longrightarrow> x < u)
              \<and> (\<forall>w\<in>set post. \<forall>x. ?U w = JNum x \<longrightarrow> x \<le> u))"
      by blast
    have run': "pick_best_variant_loop (v # vs) metrics metric_name (Some b) (JNum r) = Inr (Some b')"
      using null run by simp
    from alt show ?thesis
    proof
      assume "b' = b \<and> (\<forall>w\<in>set vs. \<forall>x. ?U w = JNum x \<longrightarrow> x \<le> r)"
      with null have "b' = b \<and> (\<forall>w\<in>set (v # vs). \<forall>x. ?U w = JNum x \<longrightarrow> x \<le> r)" by simp
      with run' show ?thesis by blast
    next
      assume "\<exists>pre post u. vs = pre @ b' # post \<and> ?U b' = JNum u \<and> r < u
              \<and> (\<forall>w\<in>set pre. \<forall>x. ?U w = JNum x \<longrightarrow> x < u)
              \<and> (\<forall>w\<in>set post. \<forall>x. ?U w = JNum x \<longrightarrow> x \<le> u)"
      then obtain pre post u where d: "vs = pre @ b' # post" "?U b' = JNum u" "r < u"
        "\<forall>w\<in>set pre. \<forall>x. ?U w = JNum x \<longrightarrow> x < u"
        "\<forall>w\<in>set post. \<forall>x. ?U w = JNum x \<longrightarrow> x \<le> u" by blast
      from d null have "v # vs = (v # pre) @ b' # post \<and> ?U b' = JNum u \<and> r < u
        \<and> (\<forall>w\<in>set (v # pre). \<forall>x. ?U w = JNum x \<longrightarrow> x < u)
        \<and> (\<forall>w\<in>set post. \<forall>x. ?U w = JNum x \<longrightarrow> x \<le> u)" by simp
      with run' show ?thesis by blast
    qed
  next
    case (num x)
    show ?thesis
    proof (cases "r < x")
      case True
      from Cons.IH [OF typed, of v x] obtain b' where
        run: "pick_best_variant_loop vs metrics metric_name (Some v) (JNum x) = Inr (Some b')"
        and alt: "(b' = v \<and> (\<forall>w\<in>set vs. \<forall>y. ?U w = JNum y \<longrightarrow> y \<le> x))
          \<or> (\<exists>pre post u. vs = pre @ b' # post \<and> ?U b' = JNum u \<and> x < u
                \<and> (\<forall>w\<in>set pre. \<forall>y. ?U w = JNum y \<longrightarrow> y < u)
                \<and> (\<forall>w\<in>set post. \<forall>y. ?U w = JNum y \<longrightarrow> y \<le> u))"
        by blast
      have run': "pick_best_variant_loop (v # vs) metrics metric_name (Some b) (JNum r) = Inr (Some b')"
        using num True run by simp
      from alt show ?thesis
      proof
        assume a: "b' = v \<and> (\<forall>w\<in>set vs. \<forall>y. ?U w = JNum y \<longrightarrow> y \<le> x)"
        with num True have "v # vs = [] @ b' # vs \<and> ?U b' = JNum x \<and> r < x
          \<and> (\<forall>w\<in>set []. \<forall>y. ?U w = JNum y \<longrightarrow> y < x)
          \<and> (\<forall>w\<in>set vs. \<forall>y. ?U w = JNum y \<longrightarrow> y \<le> x)" by simp
        with run' show ?thesis by blast
      next
        assume "\<exists>pre post u. vs = pre @ b' # post \<and> ?U b' = JNum u \<and> x < u
                \<and> (\<forall>w\<in>set pre. \<forall>y. ?U w = JNum y \<longrightarrow> y < u)
                \<and> (\<forall>w\<in>set post. \<forall>y. ?U w = JNum y \<longrightarrow> y \<le> u)"
        then obtain pre post u where d: "vs = pre @ b' # post" "?U b' = JNum u" "x < u"
          "\<forall>w\<in>set pre. \<forall>y. ?U w = JNum y \<longrightarrow> y < u"
          "\<forall>w\<in>set post. \<forall>y. ?U w = JNum y \<longrightarrow> y \<le> u" by blast
        from d num True have "v # vs = (v # pre) @ b' # post \<and> ?U b' = JNum u \<and> r < u
          \<and> (\<forall>w\<in>set (v # pre). \<forall>y. ?U w = JNum y \<longrightarrow> y < u)
          \<and> (\<forall>w\<in>set post. \<forall>y. ?U w = JNum y \<longrightarrow> y \<le> u)" by simp
        with run' show ?thesis by blast
      qed
    next
      case False
      from Cons.IH [OF typed, of b r] obtain b' where
        run: "pick_best_variant_loop vs metrics metric_name (Some b) (JNum r) = Inr (Some b')"
        and alt: "(b' = b \<and> (\<forall>w\<in>set vs. \<forall>y. ?U w = JNum y \<longrightarrow> y \<le> r))
          \<or> (\<exists>pre post u. vs = pre @ b' # post \<and> ?U b' = JNum u \<and> r < u
                \<and> (\<forall>w\<in>set pre. \<forall>y. ?U w = JNum y \<longrightarrow> y < u)
                \<and> (\<forall>w\<in>set post. \<forall>y. ?U w = JNum y \<longrightarrow> y \<le> u))"
        by blast
      have run': "pick_best_variant_loop (v # vs) metrics metric_name (Some b) (JNum r) = Inr (Some b')"
        using num False run by simp
      from alt show ?thesis
      proof
        assume "b' = b \<and> (\<forall>w\<in>set vs. \<forall>y. ?U w = JNum y \<longrightarrow> y \<le> r)"
        with num False have "b' = b \<and> (\<forall>w\<in>set (v # vs). \<forall>y. ?U w = JNum y \<longrightarrow> y \<le> r)"
          by simp
        with run' show ?thesis by blast
      next
        assume "\<exists>pre post u. vs = pre @ b' # post \<and> ?U b' = JNum u \<and> r < u
                \<and> (\<forall>w\<in>set pre. \<forall>y. ?U w = JNum y \<longrightarrow> y < u)
                \<and> (\<forall>w\<in>set post. \<forall>y. ?U w = JNum y \<longrightarrow> y \<le> u)"
        then obtain pre post u where d: "vs = pre @ b' # post" "?U b' = JNum u" "r < u"
          "\<forall>w\<in>set pre. \<forall>y. ?U w = JNum y \<longrightarrow> y < u"
          "\<forall>w\<in>set post. \<forall>y. ?U w = JNum y \<longrightarrow> y \<le> u" by blast
        from d num False have "v # vs = (v # pre) @ b' # post \<and> ?U b' = JNum u \<and> r < u
          \<and> (\<forall>w\<in>set (v # pre). \<forall>y. ?U w = JNum y \<longrightarrow> y < u)
          \<and> (\<forall>w\<in>set post. \<forall>y. ?U w = JNum y \<longrightarrow> y \<le> u)" by auto
        with run' show ?thesis by blast
      qed
    qed
  qed
qed

lemma pick_best_variant_loop_start:
  assumes "\<forall>v\<in>set vs. float_or_none (get_metric_uplift metrics metric_name (var_id v))"
  shows "(pick_best_variant_loop vs metrics metric_name None JNull = Inr None
          \<and> (\<forall>v\<in>set vs. get_metric_uplift metrics metric_name (var_id v) = JNull))
     \<or> (\<exists>b pre post u. pick_best_variant_loop vs metrics metric_name None JNull = Inr (Some b)
            \<and> vs = pre @ b # post
            \<and> get_metric_uplift metrics metric_name (var_id b) = JNum u
            \<and> (\<forall>v\<in>set pre. \<forall>x. get_metric_uplift metrics metric_name (var_id v) = JNum x
                   \<longrightarrow> x < u)
            \<and> (\<forall>v\<in>set post. \<forall>x. get_metric_uplift metrics metric_name (var_id v) = JNum x
                   \<longrightarrow> x \<le> u))"
  using assms
proof (induction vs)
  case Nil
  then show ?case by simp
next
  case (Cons v vs)
  let ?U = "\<lambda>w. get_metric_uplift metrics metric_name (var_id w)"
  from Cons.prems have typed: "\<forall>w\<in>set vs. float_or_none (?U w)" and fv: "float_or_none (?U v)"
    by simp_all
  from float_or_none_cases [OF fv] consider (null) "?U v = JNull" | (num) x where "?U v = JNum x"
    by blast
  then show ?case
  proof cases
    case null
    have step: "pick_best_variant_loop (v # vs) metrics metric_name None JNull
        = pick_best_variant_loop vs metrics metric_name None JNull"
      using null by simp
    from Cons.IH [OF typed] show ?thesis
    proof
      assume "pick_best_variant_loop vs metrics metric_name None JNull = Inr None
          \<and> (\<forall>w\<in>set vs. ?U w = JNull)"
      with null step show ?thesis by simp
    next
      assume "\<exists>b pre post u. pick_best_variant_loop vs metrics metric_name None JNull = Inr (Some b)
            \<and> vs = pre @ b # post \<and> ?U b = JNum u
            \<and> (\<forall>w\<in>set pre. \<forall>x. ?U w = JNum x \<longrightarrow> x < u)
            \<and> (\<forall>w\<in>set post. \<forall>x. ?U w = JNum x \<longrightarrow> x \<le> u)"
      then obtain b pre post u where
        d: "pick_best_variant_loop vs metrics metric_name None JNull = Inr (Some b)"
        "vs = pre @ b # post" "?U b = JNum u"
        "\<forall>w\<in>set pre. \<forall>x. ?U w = JNum x \<longrightarrow> x < u"
        "\<forall>w\<in>set post. \<forall>x. ?U w = JNum x \<longrightarrow> x \<le> u" by blast
      from d null step have
        "pick_best_variant_loop (v # vs) metrics metric_name None JNull = Inr (Some b)
         \<and> v # vs = (v # pre) @ b # post \<and> ?U b = JNum u
         \<and> (\<forall>w\<in>set (v # pre). \<forall>x. ?U w = JNum x \<longrightarrow> x < u)
         \<and> (\<forall>w\<in>set post. \<forall>x. ?U w = JNum x \<longrightarrow> x \<le> u)" by simp
      then show ?thesis by blast
    qed
  next
    case (num x)
    have step: "pick_best_variant_loop (v # vs) metrics metric_name None JNull
        = pick_best_variant_loop vs metrics metric_name (Some v) (JNum x)"
      using num by simp
    from pick_best_variant_loop_tracked [OF typed, of v x] obtain b' where
      run: "pick_best_variant_loop vs metrics metric_name (Some v) (JNum x) = Inr (Some b')"
      and alt: "(b' = v \<and> (\<forall>w\<in>set vs. \<forall>y. ?U w = JNum y \<longrightarrow> y \<le> x))
        \<or> (\<exists>pre post u. vs = pre @ b' # post \<and> ?U b' = JNum u \<and> x < u
              \<and> (\<forall>w\<in>set pre. \<forall>y. ?U w = JNum y \<longrightarrow> y < u)
              \<and> (\<forall>w\<in>set post. \<forall>y. ?U w = JNum y \<longrightarrow> y \<le> u))"
      by blast
    from alt show ?thesis
    proof
      assume "b' = v \<and> (\<forall>w\<in>set vs. \<forall>y. ?U w = JNum y \<longrightarrow> y \<le> x)"
      with num run step have
        "pick_best_variant_loop (v # vs) metrics metric_name None JNull = Inr (Some b')
         \<and> v # vs = [] @ b' # vs \<and> ?U b' = JNum x
         \<and> (\<forall>w\<in>set []. \<forall>y. ?U w = JNum y \<longrightarrow> y < x)
         \<and> (\<forall>w\<in>set vs. \<forall>y. ?U w = JNum y \<longrightarrow> y \<le> x)" by simp
      then show ?thesis by blast
    next
      assume "\<exists>pre post u. vs = pre @ b' # post \<and> ?U b' = JNum u \<and> x < u
              \<and> (\<forall>w\<in>set pre. \<forall>y. ?U w = JNum y \<longrightarrow> y < u)
              \<and> (\<forall>w\<in>set post. \<forall>y. ?U w = JNum y \<longrightarrow> y \<le> u)"
      then obtain pre post u where d: "vs = pre @ b' # post" "?U b' = JNum u" "x < u"
        "\<forall>w\<in>set pre. \<forall>y. ?U w = JNum y \<longrightarrow> y < u"
        "\<forall>w\<in>set post. \<forall>y. ?U w = JNum y \<longrightarrow> y \<le> u" by blast
      from d num run step have
        "pick_best_variant_loop (v # vs) metrics metric_name None JNull = Inr (Some b')
         \<and> v # vs = (v # pre) @ b' # post \<and> ?U b' = JNum u
         \<and> (\<forall>w\<in>set (v # pre). \<forall>y. ?U w = JNum y \<longrightarrow> y < u)
         \<and> (\<forall>w\<in>set post. \<forall>y. ?U w = JNum y \<longrightarrow> y \<le> u)" by simp
      then show ?thesis by blast
    qed
  qed
qed


text \<open>
  Claim C7. On a feed whose uplifts are numbers or \<^verbatim>\<open>None\<close>, \<open>pick_best_variant\<close>
  returns without an error. Its result is \<^verbatim>\<open>None\<close> exactly when no variant has an
  uplift. Otherwise it is a variant of the list with an uplift \<open>u\<close>, such that every
  uplift before it in the list is smaller than \<open>u\<close> and every uplift after it is at most
  \<open>u\<close>: the greatest uplift, and the first variant of the list among those that share it.
  \<^verbatim>\<open>main\<close> of funnel.py takes that variant, and the first variant of the list when the
  result is \<^verbatim>\<open>None\<close>.
\<close>

theorem pick_best_variant_first_greatest:
  assumes "\<forall>v\<in>set variants. float_or_none (get_metric_uplift metrics metric_name (var_id v))"
  shows "\<exists>r. pick_best_variant variants metrics metric_name = Inr r
     \<and> (r = None) = (\<forall>v\<in>set variants. get_metric_uplift metrics metric_name (var_id v) = JNull)
     \<and> (\<forall>b. r = Some b \<longrightarrow>
           (\<exists>pre post u. variants = pre @ b # post
              \<and> get_metric_uplift metrics metric_name (var_id b) = JNum u
              \<and> (\<forall>v\<in>set pre. \<forall>x. get_metric_uplift metrics metric_name (var_id v) = JNum x
                     \<longrightarrow> x < u)
              \<and> (\<forall>v\<in>set post. \<forall>x. get_metric_uplift metrics metric_name (var_id v) = JNum x
                     \<longrightarrow> x \<le> u)))
     \<and> (\<forall>b. r = Some b \<longrightarrow> main_best variants metrics metric_name = Inr b)
     \<and> (r = None \<and> variants \<noteq> [] \<longrightarrow>
           main_best variants metrics metric_name = Inr (hd variants))"
proof -
  let ?U = "\<lambda>w. get_metric_uplift metrics metric_name (var_id w)"
  from pick_best_variant_loop_start [OF assms] show ?thesis
  proof
    assume a: "pick_best_variant_loop variants metrics metric_name None JNull = Inr None
          \<and> (\<forall>v\<in>set variants. ?U v = JNull)"
    then have run: "pick_best_variant variants metrics metric_name = Inr None"
      by (simp add: pick_best_variant_def)
    have fb: "variants \<noteq> [] \<longrightarrow> main_best variants metrics metric_name = Inr (hd variants)"
      using run by (cases variants) (simp_all add: main_best_def)
    from a run fb show ?thesis by simp
  next
    assume "\<exists>b pre post u. pick_best_variant_loop variants metrics metric_name None JNull = Inr (Some b)
            \<and> variants = pre @ b # post \<and> ?U b = JNum u
            \<and> (\<forall>v\<in>set pre. \<forall>x. ?U v = JNum x \<longrightarrow> x < u)
            \<and> (\<forall>v\<in>set post. \<forall>x. ?U v = JNum x \<longrightarrow> x \<le> u)"
    then obtain b pre post u where
      d: "pick_best_variant_loop variants metrics metric_name None JNull = Inr (Some b)"
      "variants = pre @ b # post" "?U b = JNum u"
      "\<forall>v\<in>set pre. \<forall>x. ?U v = JNum x \<longrightarrow> x < u"
      "\<forall>v\<in>set post. \<forall>x. ?U v = JNum x \<longrightarrow> x \<le> u" by blast
    from d(1) have run: "pick_best_variant variants metrics metric_name = Inr (Some b)"
      by (simp add: pick_best_variant_def)
    have mb: "main_best variants metrics metric_name = Inr b"
      using run by (simp add: main_best_def)
    from d(2,3) have notall: "\<not> (\<forall>v\<in>set variants. ?U v = JNull)" by auto
    have dec: "\<exists>pre post u. variants = pre @ b # post \<and> ?U b = JNum u
              \<and> (\<forall>v\<in>set pre. \<forall>x. ?U v = JNum x \<longrightarrow> x < u)
              \<and> (\<forall>v\<in>set post. \<forall>x. ?U v = JNum x \<longrightarrow> x \<le> u)"
      using d(2-5) by blast
    from run mb notall dec show ?thesis by simp
  qed
qed

text \<open>
  The theorem on the example feed: for the revenue metric B and C share the greatest uplift
  and B is chosen; for the conversion rate no variant has an uplift and \<^verbatim>\<open>main\<close>
  falls back to A.
\<close>

theorem pick_best_variant_first_greatest_witness:
  "pick_best_variant (map example_variation [''A'', ''B'', ''C'', ''D'']) example_feed
      ''net_revenue_per_visitor'' = Inr (Some (example_variation ''B''))
   \<and> main_best (map example_variation [''A'', ''B'', ''C'', ''D'']) example_feed
      ''net_revenue_per_visitor'' = Inr (example_variation ''B'')
   \<and> pick_best_variant (map example_variation [''A'', ''B'', ''C'', ''D'']) example_feed
      ''conversion_rate'' = Inr None
   \<and> main_best (map example_variation [''A'', ''B'', ''C'', ''D'']) example_feed
      ''conversion_rate'' = Inr (example_variation ''A'')"
proof -
  let ?vs = "map example_variation [''A'', ''B'', ''C'', ''D'']"
  have t1: "\<forall>v\<in>set ?vs. float_or_none
      (get_metric_uplift example_feed ''net_revenue_per_visitor'' (var_id v))"
    by (simp add: example_variation_def example_feed_def example_record_def example_uplift_def
        dict_get_def dict_get_default_def float_or_none_def)
  have t2: "\<forall>v\<in>set ?vs. float_or_none
      (get_metric_uplift example_feed ''conversion_rate'' (var_id v))"
    by (simp add: example_variation_def example_feed_def example_record_def example_uplift_def
        dict_get_def dict_get_default_def float_or_none_def)
  show ?thesis
    using pick_best_variant_first_greatest [OF t1] pick_best_variant_first_greatest [OF t2]
    by (simp add: pick_best_variant_def main_best_def example_variation_def example_feed_def
        example_record_def example_uplift_def dict_get_def dict_get_default_def)
qed


end
